theory Spec2Isabelle
  imports Main
begin

section \<open>Values, objects and the editor tree\<close>

text \<open>
  Strings are lists of code units; the model keeps to the code units below 256, one
  \<^typ>\<open>char\<close> each. A JavaScript number is carried by its canonical decimal rendering
  (what \<^verbatim>\<open>String(n)\<close> gives), which is all the code under study ever does with a
  number held in a tree. \<open>VInherited k\<close> is the member \<open>k\<close> that a plain object
  inherits from \<^verbatim>\<open>Object.prototype\<close> (a built-in function, or the prototype object
  itself for \<^verbatim>\<open>__proto__\<close>): a lookup \<^verbatim>\<open>table[key]\<close> can return one.
\<close>

datatype jsvalue =
    VUndefined
  | VNull
  | VBool bool
  | VNumber string
  | VString string
  | VObject "(string \<times> jsvalue) list"
  | VInherited string

type_synonym jsobject = "(string \<times> jsvalue) list"

datatype node_type = Element | TextNode

text \<open>
  An object is kept as the list of its own properties in enumeration order. Every
  object of the program is made by an object literal or a spread, so its prototype is
  \<^verbatim>\<open>Object.prototype\<close>, with one exception: the assignment \<^verbatim>\<open>props[name] = value\<close> of
  \<^verbatim>\<open>extractProps\<close> replaces the prototype of \<^verbatim>\<open>props\<close> when the name is \<^verbatim>\<open>__proto__\<close>
  and the value an object. The \<open>props\<close> of a node are therefore their own properties
  and the object that took the place of their prototype, if one did (\<open>None\<close>: the
  prototype is \<^verbatim>\<open>Object.prototype\<close>). That object is an object literal itself.
\<close>

datatype props_object = Props (own: jsobject) (proto: "jsobject option")

abbreviation plain :: "jsobject \<Rightarrow> props_object" where
  "plain obj \<equiv> Props obj None"

text \<open>
  \<^verbatim>\<open>interface EditorNode { id; type; tagName?; props; children; textContent? }\<close>
  (types/editor.ts). The optional fields are options.
\<close>

datatype EditorNode =
  EditorNode (node_id: string) (node_type: node_type) (tagName: "string option")
    (props: props_object) (children: "EditorNode list") (textContent: "string option")

subsection \<open>Decimal numerals and array indices\<close>

definition digit_char :: "nat \<Rightarrow> char" where
  "digit_char d = ''0123456789'' ! d"

fun nat_to_dec :: "nat \<Rightarrow> string" where
  "nat_to_dec n = (if n < 10 then [digit_char n] else nat_to_dec (n div 10) @ [digit_char (n mod 10)])"

declare nat_to_dec.simps [simp del]

definition is_digit :: "char \<Rightarrow> bool" where
  "is_digit c = (48 \<le> (of_char c :: nat) \<and> (of_char c :: nat) \<le> 57)"

definition digit_val :: "char \<Rightarrow> nat" where
  "digit_val c = of_char c - 48"

definition dec_to_nat :: "string \<Rightarrow> nat" where
  "dec_to_nat s = foldl (\<lambda>acc c. 10 * acc + digit_val c) 0 s"

text \<open>
  An array index is a canonical numeral below \<open>2^32 - 1\<close>. The own keys of an object
  are enumerated with the array indices first, ascending, then the other keys in the
  order of their creation.
\<close>

definition is_array_index :: "string \<Rightarrow> bool" where
  "is_array_index k =
     (k \<noteq> [] \<and> list_all is_digit k \<and> (if hd k = CHR ''0'' then length k = 1 else True) \<and>
      length k \<le> 10 \<and> dec_to_nat k < 4294967295)"

subsection \<open>Objects\<close>

fun obj_get :: "jsobject \<Rightarrow> string \<Rightarrow> jsvalue" where
  "obj_get [] k = VUndefined"
| "obj_get ((k', v) # kvs) k = (if k' = k then v else obj_get kvs k)"

definition obj_keys :: "jsobject \<Rightarrow> string list" where
  "obj_keys obj = map fst obj"

text \<open>Where a new key lands: an array index goes before the first key that is not an
  index or is a greater index; any other key goes last.\<close>

fun obj_insert :: "string \<Rightarrow> jsvalue \<Rightarrow> jsobject \<Rightarrow> jsobject" where
  "obj_insert k v [] = [(k, v)]"
| "obj_insert k v ((k', v') # kvs) =
     (if is_array_index k \<and> (\<not> is_array_index k' \<or> dec_to_nat k < dec_to_nat k')
      then (k, v) # (k', v') # kvs
      else (k', v') # obj_insert k v kvs)"

fun obj_replace :: "string \<Rightarrow> jsvalue \<Rightarrow> jsobject \<Rightarrow> jsobject" where
  "obj_replace k v [] = []"
| "obj_replace k v ((k', v') # kvs) =
     (if k' = k then (k, v) # kvs else (k', v') # obj_replace k v kvs)"

text \<open>Defining the property \<open>k\<close> of an object, as an object literal and a spread do: an
  existing key keeps its place and takes the new value.\<close>

definition obj_set :: "string \<Rightarrow> jsvalue \<Rightarrow> jsobject \<Rightarrow> jsobject" where
  "obj_set k v obj = (if k \<in> set (obj_keys obj) then obj_replace k v obj else obj_insert k v obj)"

text \<open>\<^verbatim>\<open>{...target, ...source}\<close> copies the own enumerable properties of the source
  onto the target, in their enumeration order.\<close>

definition obj_assign :: "jsobject \<Rightarrow> jsobject \<Rightarrow> jsobject" where
  "obj_assign target source = foldl (\<lambda>acc (k, v). obj_set k v acc) target source"

fun index_chars :: "nat \<Rightarrow> string \<Rightarrow> jsobject" where
  "index_chars i [] = []"
| "index_chars i (c # cs) = (nat_to_dec i, VString [c]) # index_chars (Suc i) cs"

text \<open>What a spread \<^verbatim>\<open>...v\<close> copies: the properties of an object, the indexed
  characters of a string, nothing of any other value.\<close>

fun own_props :: "jsvalue \<Rightarrow> jsobject" where
  "own_props (VObject obj) = obj"
| "own_props (VString s) = index_chars 0 s"
| "own_props _ = []"

fun truthy :: "jsvalue \<Rightarrow> bool" where
  "truthy VUndefined = False"
| "truthy VNull = False"
| "truthy (VBool b) = b"
| "truthy (VNumber n) = (n \<noteq> ''0'' \<and> n \<noteq> ''NaN'')"
| "truthy (VString s) = (s \<noteq> [])"
| "truthy (VObject obj) = True"
| "truthy (VInherited k) = True"

text \<open>\<^verbatim>\<open>v || {}\<close>\<close>

definition or_empty :: "jsvalue \<Rightarrow> jsvalue" where
  "or_empty v = (if truthy v then v else VObject [])"

subsection \<open>Reading through the prototype\<close>

text \<open>The members every object inherits from \<^verbatim>\<open>Object.prototype\<close>, and what reading
  the key \<open>k\<close> there gives.\<close>

definition object_prototype_keys :: "string list" where
  "object_prototype_keys =
     [''constructor'', ''__defineGetter__'', ''__defineSetter__'', ''hasOwnProperty'',
      ''__lookupGetter__'', ''__lookupSetter__'', ''isPrototypeOf'', ''propertyIsEnumerable'',
      ''toString'', ''valueOf'', ''__proto__'', ''toLocaleString'']"

definition inherited :: "string \<Rightarrow> jsvalue" where
  "inherited k = (if k \<in> set object_prototype_keys then VInherited k else VUndefined)"

text \<open>
  \<^verbatim>\<open>props[k]\<close>, \<^verbatim>\<open>props.style\<close>, \<^verbatim>\<open>props.className\<close>: the own property if there is
  one, else the property of the prototype, else what \<^verbatim>\<open>Object.prototype\<close> has under
  that key (its \<^verbatim>\<open>__proto__\<close> getter gives the prototype of \<^verbatim>\<open>props\<close>).
\<close>

definition props_get :: "props_object \<Rightarrow> string \<Rightarrow> jsvalue" where
  "props_get ps k =
     (if k \<in> set (obj_keys (own ps)) then obj_get (own ps) k
      else (case proto ps of
              None \<Rightarrow> inherited k
            | Some prototype \<Rightarrow>
                if k \<in> set (obj_keys prototype) then obj_get prototype k
                else if k = ''__proto__'' then VObject prototype
                else inherited k))"

text \<open>
  \<^verbatim>\<open>props[k] = v\<close>. The key \<^verbatim>\<open>__proto__\<close>, unless it is an own property of the object
  or of its prototype, reaches the setter of \<^verbatim>\<open>Object.prototype\<close>: an object becomes
  the prototype of \<^verbatim>\<open>props\<close>, and \<^verbatim>\<open>true\<close>, a string or a number is ignored
  (\<^verbatim>\<open>null\<close>, which would leave \<^verbatim>\<open>props\<close> without prototype, is never assigned by
  the code). Every other key becomes or stays an own property.
\<close>

definition props_put :: "string \<Rightarrow> jsvalue \<Rightarrow> props_object \<Rightarrow> props_object" where
  "props_put k v ps =
     (if k = ''__proto__'' \<and> k \<notin> set (obj_keys (own ps)) \<and>
         (case proto ps of None \<Rightarrow> True | Some prototype \<Rightarrow> k \<notin> set (obj_keys prototype))
      then (case v of VObject prototype \<Rightarrow> Props (own ps) (Some prototype) | _ \<Rightarrow> ps)
      else Props (obj_set k v (own ps)) (proto ps))"

section \<open>Tree operations (lib/parser.ts)\<close>

fun ids :: "EditorNode \<Rightarrow> string list" where
  "ids (EditorNode i ty tn ps cs tc) = i # concat (map ids cs)"

text \<open>
  \<^verbatim>\<open>
  if (root.id === id) return root;
  for (const child of root.children) {
    const found = findNodeById(child, id);
    if (found) return found;
  }
  return null;
  \<close>
\<close>

fun findNodeById :: "EditorNode \<Rightarrow> string \<Rightarrow> EditorNode option" where
  "findNodeById (EditorNode i ty tn ps cs tc) ident =
     (if i = ident then Some (EditorNode i ty tn ps cs tc)
      else fold (\<lambda>child found. case found of Some n \<Rightarrow> Some n | None \<Rightarrow> findNodeById child ident)
             cs None)"

text \<open>
  \<^verbatim>\<open>
  if (root.id === id) {
    const currentStyle = (root.props.style as Record<string, string>) || {};
    return { ...root, props: { ...root.props, style: { ...currentStyle, ...styleUpdates } } };
  }
  return { ...root, children: root.children.map(child => updateNodeStyle(child, id, styleUpdates)) };
  \<close>
  \<^verbatim>\<open>root.props.style\<close> is read through the prototype of \<^verbatim>\<open>props\<close>; the new
  \<^verbatim>\<open>props\<close> is an object literal, which takes the own properties of the old one and
  has the prototype \<^verbatim>\<open>Object.prototype\<close>. A node that is not the target keeps its
  \<^verbatim>\<open>props\<close> object.
\<close>

fun updateNodeStyle :: "EditorNode \<Rightarrow> string \<Rightarrow> jsobject \<Rightarrow> EditorNode" where
  "updateNodeStyle (EditorNode i ty tn ps cs tc) ident styleUpdates =
     (if i = ident then
        (let currentStyle = or_empty (props_get ps ''style'') in
         EditorNode i ty tn
           (plain
              (obj_set ''style''
                 (VObject (obj_assign (obj_assign [] (own_props currentStyle)) styleUpdates))
                 (obj_assign [] (own ps))))
           cs tc)
      else EditorNode i ty tn ps (map (\<lambda>child. updateNodeStyle child ident styleUpdates) cs) tc)"

text \<open>
  \<^verbatim>\<open>
  if (root.id === id) return { ...root, textContent };
  return { ...root, children: root.children.map(child => updateNodeText(child, id, textContent)) };
  \<close>
\<close>

fun updateNodeText :: "EditorNode \<Rightarrow> string \<Rightarrow> string \<Rightarrow> EditorNode" where
  "updateNodeText (EditorNode i ty tn ps cs tc) ident txt =
     (if i = ident then EditorNode i ty tn ps cs (Some txt)
      else EditorNode i ty tn ps (map (\<lambda>child. updateNodeText child ident txt) cs) tc)"

section \<open>Serializer (lib/serializer.ts)\<close>

datatype js_type = TUndefined | TObject | TBoolean | TNumber | TString | TFunction

fun typeof :: "jsvalue \<Rightarrow> js_type" where
  "typeof VUndefined = TUndefined"
| "typeof VNull = TObject"
| "typeof (VBool b) = TBoolean"
| "typeof (VNumber n) = TNumber"
| "typeof (VString s) = TString"
| "typeof (VObject obj) = TObject"
| "typeof (VInherited k) = (if k = ''__proto__'' then TObject else TFunction)"

text \<open>The conversion to a string that a template literal applies. A built-in function
  prints its native-code placeholder.\<close>

fun js_to_string :: "jsvalue \<Rightarrow> string" where
  "js_to_string VUndefined = ''undefined''"
| "js_to_string VNull = ''null''"
| "js_to_string (VBool b) = (if b then ''true'' else ''false'')"
| "js_to_string (VNumber n) = n"
| "js_to_string (VString s) = s"
| "js_to_string (VObject obj) = ''[object Object]''"
| "js_to_string (VInherited k) =
     (if k = ''__proto__'' then ''[object Object]''
      else ''function '' @ (if k = ''constructor'' then ''Object'' else k) @ ''() { [native code] }'')"

fun join :: "string \<Rightarrow> string list \<Rightarrow> string" where
  "join sep [] = []"
| "join sep [x] = x"
| "join sep (x # y # ys) = x @ sep @ join sep (y # ys)"

definition hex_digit :: "nat \<Rightarrow> char" where
  "hex_digit d = ''0123456789abcdef'' ! d"

text \<open>\<^verbatim>\<open>JSON.stringify\<close> on a string: the quote, the backslash and the control
  characters are escaped.\<close>

definition json_char :: "char \<Rightarrow> string" where
  "json_char c =
     (let n = (of_char c :: nat) in
      if n = 34 then [CHR 0x5C, CHR 0x22]
      else if n = 92 then [CHR 0x5C, CHR 0x5C]
      else if n = 8 then [CHR 0x5C, CHR ''b'']
      else if n = 12 then [CHR 0x5C, CHR ''f'']
      else if n = 10 then [CHR 0x5C, CHR ''n'']
      else if n = 13 then [CHR 0x5C, CHR ''r'']
      else if n = 9 then [CHR 0x5C, CHR ''t'']
      else if n < 32 then [CHR 0x5C, CHR ''u'', CHR ''0'', CHR ''0'', hex_digit (n div 16), hex_digit (n mod 16)]
      else [c])"

definition json_quote :: "string \<Rightarrow> string" where
  "json_quote s = [CHR 0x22] @ concat (map json_char s) @ [CHR 0x22]"

text \<open>\<^verbatim>\<open>JSON.stringify(value)\<close>; \<open>None\<close> is \<^verbatim>\<open>undefined\<close>, and a property whose
  value gives \<^verbatim>\<open>undefined\<close> is left out of its object.\<close>

fun json_stringify :: "jsvalue \<Rightarrow> string option" where
  "json_stringify VUndefined = None"
| "json_stringify VNull = Some ''null''"
| "json_stringify (VBool b) = Some (if b then ''true'' else ''false'')"
| "json_stringify (VNumber n) =
     Some (if n = ''NaN'' \<or> n = ''Infinity'' \<or> n = ''-Infinity'' then ''null'' else n)"
| "json_stringify (VString s) = Some (json_quote s)"
| "json_stringify (VObject obj) =
     Some (''{'' @ join '','' (concat (map (\<lambda>(k, v). case json_stringify v of
                                                   None \<Rightarrow> []
                                                 | Some str \<Rightarrow> [json_quote k @ '':'' @ str]) obj)) @ ''}'')"
| "json_stringify (VInherited k) = (if k = ''__proto__'' then Some ''{}'' else None)"

text \<open>
  \<^verbatim>\<open>
  function escapeString(str) {
    return str.replace(/\\/g, '\\\\').replace(/"/g, '\\"').replace(/\n/g, '\\n');
  }
  \<close>
  Each replacement rewrites one character. The backslashes are doubled first; the two
  later replacements match no backslash and write none that is matched again, so the
  chain is one pass over the string.
\<close>

definition escape_char :: "char \<Rightarrow> string" where
  "escape_char c =
     (if c = CHR 0x5C then [CHR 0x5C, CHR 0x5C]
      else if c = CHR 0x22 then [CHR 0x5C, CHR 0x22]
      else if c = CHR 0x0A then [CHR 0x5C, CHR ''n'']
      else [c])"

definition escapeString :: "string \<Rightarrow> string" where
  "escapeString str = concat (map escape_char str)"

text \<open>
  \<^verbatim>\<open>
  function serializeStyle(style) {
    if (Object.keys(style).length === 0) return '';
    const parts = [];
    for (const [key, value] of Object.entries(style)) {
      if (value !== undefined && value !== null && value !== '') {
        parts.push(`${key}: "${value}"`);
      }
    }
    return `{ ${parts.join(', ')} }`;
  }
  \<close>
\<close>

definition style_part :: "string \<times> jsvalue \<Rightarrow> string list" where
  "style_part kv =
     (case kv of (key, val) \<Rightarrow>
        if val \<noteq> VUndefined \<and> val \<noteq> VNull \<and> val \<noteq> VString []
        then [key @ '': '' @ [CHR 0x22] @ js_to_string val @ [CHR 0x22]] else [])"

definition serializeStyle :: "jsvalue \<Rightarrow> string" where
  "serializeStyle style =
     (if own_props style = [] then []
      else ''{ '' @ join '', '' (concat (map style_part (own_props style))) @ '' }'')"

text \<open>
  \<^verbatim>\<open>
  for (const [key, value] of Object.entries(props)) {
    if (value === undefined || value === null) continue;
    if (key === 'style' && typeof value === 'object') {
      const styleStr = serializeStyle(value);
      if (styleStr) parts.push(`style={${styleStr}}`);
    } else if (typeof value === 'string') {
      parts.push(`${key}="${escapeString(value)}"`);
    } else if (typeof value === 'boolean') {
      if (value) parts.push(key);
    } else if (typeof value === 'number') {
      parts.push(`${key}={${value}}`);
    } else if (typeof value === 'object') {
      parts.push(`${key}={${JSON.stringify(value)}}`);
    }
  }
  return parts.length > 0 ? ' ' + parts.join(' ') : '';
  \<close>
  \<^verbatim>\<open>Object.entries\<close> gives the own properties; what \<^verbatim>\<open>props\<close> inherits is not
  printed.
\<close>

definition prop_part :: "string \<times> jsvalue \<Rightarrow> string list" where
  "prop_part kv =
     (case kv of (key, val) \<Rightarrow>
        if val = VUndefined \<or> val = VNull then []
        else if key = ''style'' \<and> typeof val = TObject then
          (let styleStr = serializeStyle val in
           if styleStr \<noteq> [] then [''style={'' @ styleStr @ ''}''] else [])
        else if typeof val = TString then
          [key @ ''='' @ [CHR 0x22] @ escapeString (js_to_string val) @ [CHR 0x22]]
        else if typeof val = TBoolean then (if truthy val then [key] else [])
        else if typeof val = TNumber then [key @ ''={'' @ js_to_string val @ ''}'']
        else if typeof val = TObject then
          [key @ ''={'' @ (case json_stringify val of Some str \<Rightarrow> str | None \<Rightarrow> ''undefined'') @ ''}'']
        else [])"

definition serializeProps :: "jsobject \<Rightarrow> string" where
  "serializeProps ps =
     (let parts = concat (map prop_part ps) in
      if length parts > 0 then '' '' @ join '' '' parts else [])"

definition indent_str :: "nat \<Rightarrow> string" where
  "indent_str indent = concat (replicate indent ''  '')"

text \<open>\<^verbatim>\<open>s || ''\<close> on an optional string.\<close>

definition or_blank :: "string option \<Rightarrow> string" where
  "or_blank s = (case s of None \<Rightarrow> [] | Some t \<Rightarrow> t)"

text \<open>
  \<^verbatim>\<open>
  export function serializeToJSX(node, indent = 0) {
    const indentStr = '  '.repeat(indent);
    if (node.type === 'text') return node.textContent || '';
    if (node.tagName === 'Fragment') {
      const children = node.children.map(child => serializeToJSX(child, indent)).join('\n');
      return `<>\n${children}\n${indentStr}</>`;
    }
    const tagName = node.tagName || 'div';
    const propsStr = serializeProps(node.props);
    const hasChildren = node.children.length > 0;
    if (!hasChildren) return `${indentStr}<${tagName}${propsStr} />`;
    const allTextChildren = node.children.every(c => c.type === 'text');
    if (allTextChildren && node.children.length === 1) {
      const textContent = node.children[0].textContent || '';
      return `${indentStr}<${tagName}${propsStr}>${textContent}</${tagName}>`;
    }
    const children = node.children.map(child => {
        if (child.type === 'text') return `${indentStr}  ${child.textContent || ''}`;
        return serializeToJSX(child, indent + 1);
      }).join('\n');
    return `${indentStr}<${tagName}${propsStr}>\n${children}\n${indentStr}</${tagName}>`;
  }
  \<close>
\<close>

fun serializeToJSX :: "EditorNode \<Rightarrow> nat \<Rightarrow> string" where
  "serializeToJSX (EditorNode i ty tn ps cs tc) indent =
     (let indentStr = indent_str indent in
      if ty = TextNode then or_blank tc
      else if tn = Some ''Fragment'' then
        ''<>'' @ [CHR 0x0A] @ join [CHR 0x0A] (map (\<lambda>child. serializeToJSX child indent) cs)
          @ [CHR 0x0A] @ indentStr @ ''</>''
      else
        (let tagName = (if or_blank tn = [] then ''div'' else or_blank tn);
             propsStr = serializeProps (own ps)
         in if \<not> length cs > 0 then indentStr @ ''<'' @ tagName @ propsStr @ '' />''
            else if list_all (\<lambda>c. node_type c = TextNode) cs \<and> length cs = 1 then
              indentStr @ ''<'' @ tagName @ propsStr @ ''>'' @ or_blank (textContent (hd cs))
                @ ''</'' @ tagName @ ''>''
            else
              indentStr @ ''<'' @ tagName @ propsStr @ ''>'' @ [CHR 0x0A]
                @ join [CHR 0x0A]
                    (map (\<lambda>child. if node_type child = TextNode
                                   then indentStr @ ''  '' @ or_blank (textContent child)
                                   else serializeToJSX child (indent + 1)) cs)
                @ [CHR 0x0A] @ indentStr @ ''</'' @ tagName @ ''>''))"

section \<open>Strings and the patterns of the style resolver\<close>

text \<open>White space as \<^verbatim>\<open>\s\<close> and \<^verbatim>\<open>trim\<close> see it, among the code units below 256.\<close>

definition is_space :: "char \<Rightarrow> bool" where
  "is_space c = ((of_char c :: nat) \<in> {9, 10, 11, 12, 13, 32, 160})"

text \<open>\<^verbatim>\<open>\w\<close> is \<^verbatim>\<open>[A-Za-z0-9_]\<close>.\<close>

definition is_word_char :: "char \<Rightarrow> bool" where
  "is_word_char c =
     (let n = (of_char c :: nat) in
      (48 \<le> n \<and> n \<le> 57) \<or> (65 \<le> n \<and> n \<le> 90) \<or> n = 95 \<or> (97 \<le> n \<and> n \<le> 122))"

definition trim :: "string \<Rightarrow> string" where
  "trim s = rev (dropWhile is_space (rev (dropWhile is_space s)))"

definition starts_with :: "string \<Rightarrow> string \<Rightarrow> bool" where
  "starts_with s p = (take (length p) s = p)"

text \<open>\<^verbatim>\<open>s.includes(p)\<close>\<close>

fun str_includes :: "string \<Rightarrow> string \<Rightarrow> bool" where
  "str_includes [] p = (p = [])"
| "str_includes (c # cs) p = (starts_with (c # cs) p \<or> str_includes cs p)"

text \<open>\<^verbatim>\<open>s.replace(pat, rep)\<close> with a string pattern: the first occurrence only.\<close>

fun replace_first :: "string \<Rightarrow> string \<Rightarrow> string \<Rightarrow> string" where
  "replace_first pat rep [] = (if pat = [] then rep else [])"
| "replace_first pat rep (c # cs) =
     (if starts_with (c # cs) pat then rep @ drop (length pat) (c # cs)
      else c # replace_first pat rep cs)"

text \<open>\<^verbatim>\<open>className.split(/\s+/)\<close>: a run of white space separates two pieces, and a
  string that starts or ends with white space has an empty first or last piece.\<close>

function split_ws :: "string \<Rightarrow> string list" where
  "split_ws s =
     (let piece = takeWhile (\<lambda>c. \<not> is_space c) s;
          rest = dropWhile (\<lambda>c. \<not> is_space c) s
      in if rest = [] then [piece] else piece # split_ws (dropWhile is_space rest))"
  by pat_completeness auto
termination
proof (relation "measure length")
  show "wf (measure length)" by simp
next
  fix s :: string and piece rest
  assume rest: "rest = dropWhile (\<lambda>c. \<not> is_space c) s" and ne: "rest \<noteq> []"
  from ne obtain c cs where c: "rest = c # cs" by (cases rest) auto
  with rest have "dropWhile (\<lambda>c. \<not> is_space c) s = c # cs" by simp
  then have "is_space c" by (simp add: dropWhile_eq_Cons_conv)
  then have "length (dropWhile is_space rest) \<le> length cs"
    using c by (simp add: length_dropWhile_le)
  also have "length cs < length rest" using c by simp
  also have "length rest \<le> length s" using rest by (simp add: length_dropWhile_le)
  finally show "(dropWhile is_space rest, s) \<in> measure length" by simp
qed

declare split_ws.simps [simp del]

text \<open>\<^verbatim>\<open>/^PREFIX(\w+)(-\d+)?$/\<close>: the first group is the whole run of word characters
  after the prefix (a hyphen is not one, so the run cannot be cut shorter and still be
  followed by a hyphen or the end); the second group, when present, is the hyphen and
  the digits that reach the end. The result holds the two groups.\<close>

definition match_word_num :: "string \<Rightarrow> string \<Rightarrow> (string \<times> string option) option" where
  "match_word_num prefix cls =
     (if starts_with cls prefix then
        (let rest = drop (length prefix) cls;
             w = takeWhile is_word_char rest;
             r = dropWhile is_word_char rest
         in if w = [] then None
            else if r = [] then Some (w, None)
            else if hd r = CHR ''-'' \<and> tl r \<noteq> [] \<and> list_all is_digit (tl r) then Some (w, Some r)
            else None)
      else None)"

text \<open>\<^verbatim>\<open>/^PREFIX(\d+)$/\<close>: the group.\<close>

definition match_digits :: "string \<Rightarrow> string \<Rightarrow> string option" where
  "match_digits prefix cls =
     (if starts_with cls prefix \<and> drop (length prefix) cls \<noteq> [] \<and>
         list_all is_digit (drop (length prefix) cls)
      then Some (drop (length prefix) cls) else None)"

section \<open>Style resolver (lib/renderer.ts, getComputedStylesFromClassName)\<close>

definition size_keywords :: "string list" where
  "size_keywords = [''xs'', ''sm'', ''base'', ''lg'', ''xl'', ''2xl'', ''3xl'', ''4xl'', ''5xl'', ''6xl'']"

definition sizes :: "(string \<times> string) list" where
  "sizes = [(''xs'', ''12px''), (''sm'', ''14px''), (''base'', ''16px''), (''lg'', ''18px''),
            (''xl'', ''20px''), (''2xl'', ''24px''), (''3xl'', ''30px''), (''4xl'', ''36px''),
            (''5xl'', ''48px''), (''6xl'', ''60px'')]"

definition colorMap :: "(string \<times> string) list" where
  "colorMap = [(''white'', ''#ffffff''), (''black'', ''#000000''),
     (''gray-100'', ''#f3f4f6''), (''gray-200'', ''#e5e7eb''), (''gray-300'', ''#d1d5db''),
     (''gray-400'', ''#9ca3af''), (''gray-500'', ''#6b7280''), (''gray-600'', ''#4b5563''),
     (''gray-700'', ''#374151''), (''gray-800'', ''#1f2937''), (''gray-900'', ''#111827''),
     (''red-500'', ''#ef4444''), (''blue-500'', ''#3b82f6''), (''green-500'', ''#22c55e''),
     (''yellow-500'', ''#eab308''), (''purple-500'', ''#a855f7''), (''pink-500'', ''#ec4899'')]"

text \<open>\<^verbatim>\<open>table[key]\<close> on an object literal of strings: an own key gives its string, an
  inherited one the inherited member, any other key \<^verbatim>\<open>undefined\<close>.\<close>

definition table_get :: "(string \<times> string) list \<Rightarrow> string \<Rightarrow> jsvalue" where
  "table_get tbl k =
     (case map_of tbl k of
        Some v \<Rightarrow> VString v
      | None \<Rightarrow> inherited k)"

text \<open>\<^verbatim>\<open>`${parseInt(digits) * 4}px`\<close>. The digits are read as a natural number, which
  is what the double holds while \<open>4 * n \<le> 2^53\<close>.\<close>

definition px4 :: "string \<Rightarrow> jsvalue" where
  "px4 digits = VString (nat_to_dec (dec_to_nat digits * 4) @ ''px'')"

text \<open>The colour steps: \<^verbatim>\<open>colorKey = m[2] ? `${m[1]}${m[2]}` : m[1]\<close>, and the style
  is set when \<^verbatim>\<open>colorMap[colorKey]\<close> is truthy.\<close>

definition color_key :: "string \<times> string option \<Rightarrow> string" where
  "color_key m = (case m of (w, None) \<Rightarrow> w | (w, Some d) \<Rightarrow> w @ d)"

definition set_color :: "string \<Rightarrow> string \<times> string option \<Rightarrow> jsobject \<Rightarrow> jsobject" where
  "set_color property m styles =
     (if truthy (table_get colorMap (color_key m))
      then obj_set property (table_get colorMap (color_key m)) styles else styles)"

text \<open>One round of the loop body, for the class \<open>cls\<close>; the steps run in the order of
  the source, each on the styles the previous one left.\<close>

definition font_size_step :: "string \<Rightarrow> jsobject \<Rightarrow> jsobject" where
  "font_size_step cls styles =
     (if cls \<in> set (map (\<lambda>k. ''text-'' @ k) size_keywords) then
        (let size = replace_first ''text-'' [] cls;
             found = table_get sizes size
         in obj_set ''fontSize'' (if truthy found then found else VString ''16px'') styles)
      else styles)"

definition font_weight_step :: "string \<Rightarrow> jsobject \<Rightarrow> jsobject" where
  "font_weight_step cls styles =
     (let s1 = (if cls = ''font-bold'' then obj_set ''fontWeight'' (VString ''bold'') styles else styles);
          s2 = (if cls = ''font-semibold'' then obj_set ''fontWeight'' (VString ''600'') s1 else s1);
          s3 = (if cls = ''font-medium'' then obj_set ''fontWeight'' (VString ''500'') s2 else s2);
          s4 = (if cls = ''font-normal'' then obj_set ''fontWeight'' (VString ''normal'') s3 else s3)
      in if cls = ''font-light'' then obj_set ''fontWeight'' (VString ''300'') s4 else s4)"

definition text_color_step :: "string \<Rightarrow> jsobject \<Rightarrow> jsobject" where
  "text_color_step cls styles =
     (case match_word_num ''text-'' cls of
        None \<Rightarrow> styles
      | Some m \<Rightarrow> if fst m \<in> set size_keywords then styles else set_color ''color'' m styles)"

definition bg_color_step :: "string \<Rightarrow> jsobject \<Rightarrow> jsobject" where
  "bg_color_step cls styles =
     (case match_word_num ''bg-'' cls of
        None \<Rightarrow> styles
      | Some m \<Rightarrow> set_color ''backgroundColor'' m styles)"

definition spacing_step :: "string \<Rightarrow> string list \<Rightarrow> string \<Rightarrow> jsobject \<Rightarrow> jsobject" where
  "spacing_step prefix properties cls styles =
     (case match_digits prefix cls of
        None \<Rightarrow> styles
      | Some digits \<Rightarrow> foldl (\<lambda>acc property. obj_set property (px4 digits) acc) styles properties)"

definition radius_step :: "string \<Rightarrow> jsobject \<Rightarrow> jsobject" where
  "radius_step cls styles =
     (let s1 = (if cls = ''rounded'' then obj_set ''borderRadius'' (VString ''4px'') styles else styles);
          s2 = (if cls = ''rounded-lg'' then obj_set ''borderRadius'' (VString ''8px'') s1 else s1)
      in if cls = ''rounded-full'' then obj_set ''borderRadius'' (VString ''9999px'') s2 else s2)"

definition flex_step :: "string \<Rightarrow> jsobject \<Rightarrow> jsobject" where
  "flex_step cls styles =
     (let s1 = (if cls = ''flex'' then obj_set ''display'' (VString ''flex'') styles else styles);
          s2 = (if cls = ''flex-col'' then obj_set ''flexDirection'' (VString ''column'') s1 else s1);
          s3 = (if cls = ''items-center'' then obj_set ''alignItems'' (VString ''center'') s2 else s2);
          s4 = (if cls = ''justify-center'' then obj_set ''justifyContent'' (VString ''center'') s3 else s3);
          s5 = (if cls = ''gap-2'' then obj_set ''gap'' (VString ''8px'') s4 else s4)
      in if cls = ''gap-4'' then obj_set ''gap'' (VString ''16px'') s5 else s5)"

definition apply_class :: "jsobject \<Rightarrow> string \<Rightarrow> jsobject" where
  "apply_class styles cls =
     flex_step cls
       (radius_step cls
         (spacing_step ''my-'' [''marginTop'', ''marginBottom''] cls
           (spacing_step ''mx-'' [''marginLeft'', ''marginRight''] cls
             (spacing_step ''m-'' [''margin''] cls
               (spacing_step ''py-'' [''paddingTop'', ''paddingBottom''] cls
                 (spacing_step ''px-'' [''paddingLeft'', ''paddingRight''] cls
                   (spacing_step ''p-'' [''padding''] cls
                     (bg_color_step cls
                       (text_color_step cls
                         (font_weight_step cls
                           (font_size_step cls styles)))))))))))"

definition getComputedStylesFromClassName :: "string \<Rightarrow> jsobject" where
  "getComputedStylesFromClassName className = foldl apply_class [] (split_ws className)"

text \<open>
  \<^verbatim>\<open>
  export function extractStyleFromNode(node) {
    const style = (node.props.style as Record<string, string>) || {};
    return { ...style };
  }
  \<close>
\<close>

definition extractStyleFromNode :: "EditorNode \<Rightarrow> jsobject" where
  "extractStyleFromNode node = obj_assign [] (own_props (or_empty (props_get (props node) ''style'')))"

section \<open>Property panel (components/PropertyPanel.tsx)\<close>

text \<open>
  \<^verbatim>\<open>
  const inlineStyles = extractStyleFromNode(selectedNode);
  const classStyles = typeof selectedNode.props.className === 'string'
    ? getComputedStylesFromClassName(selectedNode.props.className) : {};
  const mergedStyles = { ...classStyles, ...inlineStyles };
  \<close>
\<close>

definition classStyles :: "EditorNode \<Rightarrow> jsobject" where
  "classStyles selectedNode =
     (case props_get (props selectedNode) ''className'' of
        VString className \<Rightarrow> getComputedStylesFromClassName className
      | _ \<Rightarrow> [])"

definition mergedStyles :: "EditorNode \<Rightarrow> jsobject" where
  "mergedStyles selectedNode =
     obj_assign (obj_assign [] (classStyles selectedNode)) (extractStyleFromNode selectedNode)"

datatype js_error = SyntaxError string | TypeError string

datatype BackgroundType = Solid | Gradient

text \<open>The panel's state hooks.\<close>

record panel_state =
  localStyle :: jsobject
  localText :: string
  backgroundType :: BackgroundType
  gradientFrom :: string
  gradientTo :: string
  gradientDirection :: string

definition initial_panel :: panel_state where
  "initial_panel =
     \<lparr>localStyle = [], localText = [], backgroundType = Solid,
      gradientFrom = ''#8b5cf6'', gradientTo = ''#3b82f6'', gradientDirection = ''to right''\<rparr>"

text \<open>
  \<^verbatim>\<open>/linear-gradient\(([^,]+),\s*([^,]+),\s*([^)]+)\)/\<close>, tried where the literal
  \<^verbatim>\<open>linear-gradient(\<close> starts. The first group is the run up to the first comma.
  The second ends at the next comma and the third at the next closing parenthesis;
  each comes after \<^verbatim>\<open>\s*\<close>, which takes all the white space in front of it but
  gives back the last one when nothing else is left for the group.
\<close>

definition after_spaces :: "string \<Rightarrow> string" where
  "after_spaces run = (if dropWhile is_space run = [] then [last run] else dropWhile is_space run)"

definition gradient_at :: "string \<Rightarrow> (string \<times> string \<times> string) option" where
  "gradient_at s =
     (if starts_with s ''linear-gradient('' then
        (let r1 = drop 16 s;
             g1 = takeWhile (\<lambda>c. c \<noteq> CHR '','') r1;
             a1 = dropWhile (\<lambda>c. c \<noteq> CHR '','') r1
         in if g1 = [] \<or> a1 = [] then None
            else
              (let r2 = tl a1;
                   run2 = takeWhile (\<lambda>c. c \<noteq> CHR '','') r2;
                   a2 = dropWhile (\<lambda>c. c \<noteq> CHR '','') r2
               in if run2 = [] \<or> a2 = [] then None
                  else
                    (let r3 = tl a2;
                         run3 = takeWhile (\<lambda>c. c \<noteq> CHR '')'') r3;
                         a3 = dropWhile (\<lambda>c. c \<noteq> CHR '')'') r3
                     in if run3 = [] \<or> a3 = [] then None
                        else Some (g1, after_spaces run2, after_spaces run3))))
      else None)"

text \<open>\<^verbatim>\<open>bgImage.match(...)\<close>: the leftmost place where the pattern matches.\<close>

fun gradient_match :: "string \<Rightarrow> (string \<times> string \<times> string) option" where
  "gradient_match [] = None"
| "gradient_match (c # cs) =
     (case gradient_at (c # cs) of Some m \<Rightarrow> Some m | None \<Rightarrow> gradient_match cs)"

declare gradient_match.simps [simp del] str_includes.simps [simp del]

text \<open>\<^verbatim>\<open>node.children.find(c => c.type === 'text')\<close>\<close>

definition first_text_child :: "EditorNode \<Rightarrow> EditorNode option" where
  "first_text_child node = find (\<lambda>c. node_type c = TextNode) (children node)"

text \<open>
  The effect that runs when the selected node changes.
  \<^verbatim>\<open>
  if (selectedNode) {
    ...
    setLocalStyle(mergedStyles);
    const bgImage = inlineStyles.backgroundImage || '';
    if (bgImage.includes('linear-gradient')) {
      setBackgroundType('gradient');
      const match = bgImage.match(/linear-gradient\(([^,]+),\s*([^,]+),\s*([^)]+)\)/);
      if (match) {
        setGradientDirection(match[1]);
        setGradientFrom(match[2].trim());
        setGradientTo(match[3].trim());
      }
    } else if (mergedStyles.backgroundColor) {
      setBackgroundType('solid');
    }
    if (selectedNode.type === 'text') {
      setLocalText(selectedNode.textContent || '');
    } else {
      const textChild = selectedNode.children.find(c => c.type === 'text');
      setLocalText(textChild?.textContent || '');
    }
  } else {
    setLocalStyle({});
    setLocalText('');
  }
  \<close>
  \<^verbatim>\<open>bgImage\<close> is the style's value when that is truthy. Only a string has
  \<^verbatim>\<open>includes\<close>: on any other truthy value the call throws a \<^verbatim>\<open>TypeError\<close>.
\<close>

definition node_text :: "EditorNode \<Rightarrow> string" where
  "node_text selectedNode =
     (if node_type selectedNode = TextNode then or_blank (textContent selectedNode)
      else (case first_text_child selectedNode of
              None \<Rightarrow> []
            | Some textChild \<Rightarrow> or_blank (textContent textChild)))"

definition detect_background :: "string \<Rightarrow> jsobject \<Rightarrow> panel_state \<Rightarrow> panel_state" where
  "detect_background bgImage merged st =
     (if str_includes bgImage ''linear-gradient'' then
        (case gradient_match bgImage of
           Some (m1, m2, m3) \<Rightarrow>
             st\<lparr>backgroundType := Gradient, gradientDirection := m1,
                gradientFrom := trim m2, gradientTo := trim m3\<rparr>
         | None \<Rightarrow> st\<lparr>backgroundType := Gradient\<rparr>)
      else if truthy (obj_get merged ''backgroundColor'') then st\<lparr>backgroundType := Solid\<rparr>
      else st)"

definition on_selected_node :: "EditorNode option \<Rightarrow> panel_state \<Rightarrow> js_error + panel_state" where
  "on_selected_node selected st =
     (case selected of
        None \<Rightarrow> Inr (st\<lparr>localStyle := [], localText := []\<rparr>)
      | Some selectedNode \<Rightarrow>
          (let inlineStyles = extractStyleFromNode selectedNode;
               merged = mergedStyles selectedNode;
               st1 = st\<lparr>localStyle := merged\<rparr>;
               bgValue = obj_get inlineStyles ''backgroundImage''
           in case (if truthy bgValue then bgValue else VString []) of
                VString bgImage \<Rightarrow>
                  Inr ((detect_background bgImage merged st1)\<lparr>localText := node_text selectedNode\<rparr>)
              | _ \<Rightarrow> Inl (TypeError ''bgImage.includes is not a function'')))"

text \<open>A box whose inline background image names a gradient with a single colour.\<close>

definition one_colour_gradient_box :: EditorNode where
  "one_colour_gradient_box =
     EditorNode ''n1'' Element (Some ''div'')
       (plain [(''style'', VObject [(''backgroundImage'', VString ''linear-gradient(red)'')])]) [] None"

definition two_colour_gradient_box :: EditorNode where
  "two_colour_gradient_box =
     EditorNode ''n1'' Element (Some ''div'')
       (plain [(''style'', VObject [(''backgroundImage'', VString ''linear-gradient(to left, #fff, #000)'')])])
       [] None"

section \<open>Interactive renderer (lib/renderer.ts, renderNode)\<close>
















section \<open>Markup parser (lib/parser.ts)\<close>

text \<open>
  The syntax tree of the front end (\<^verbatim>\<open>@babel/parser\<close>, \<^verbatim>\<open>@babel/types\<close>), as far as
  the code looks at it: the node kinds it tests for, with the fields it reads. A
  numeric literal carries the rendering of its value, a template literal the raw text
  of its quasis and its expressions, and \<open>OtherNode\<close> is a node of any other kind with
  its sub-nodes in the order a traversal visits them.
\<close>

datatype jsx_name =
    JSXIdentifier string
  | JSXMemberExpression jsx_name string
  | JSXNamespacedName string string

datatype attr_name = AttrIdentifier string | AttrNamespacedName string string

datatype babel_node =
    Program "babel_node list"
  | ExpressionStatement babel_node
  | JSXElement jsx_name "jsx_attr list" "babel_node list"
  | JSXFragment "babel_node list"
  | JSXText string
  | JSXExpressionContainer babel_node
  | JSXSpreadChild babel_node
  | StringLiteral string
  | NumericLiteral string
  | BooleanLiteral bool
  | ObjectExpression "obj_member list"
  | TemplateLiteral "string list" "babel_node list"
  | OtherNode "babel_node list"
and jsx_attr =
    JSXAttribute attr_name "babel_node option"
  | JSXSpreadAttribute babel_node
and obj_member =
    ObjectProperty prop_key babel_node
  | OtherMember "babel_node list"
and prop_key =
    KeyIdentifier string
  | KeyStringLiteral string
  | KeyOther babel_node

fun getTagName :: "jsx_name \<Rightarrow> string" where
  "getTagName (JSXIdentifier name) = name"
| "getTagName (JSXMemberExpression object property) = getTagName object @ ''.'' @ property"
| "getTagName (JSXNamespacedName namespace name) = namespace @ '':'' @ name"

text \<open>\<^verbatim>\<open>obj[key] = value\<close> in \<^verbatim>\<open>extractObjectExpression\<close>, where the value is a
  string, a number or a boolean: under the key \<^verbatim>\<open>__proto__\<close> the setter of
  \<^verbatim>\<open>Object.prototype\<close> ignores it, and no own property is created.\<close>

definition obj_put :: "string \<Rightarrow> jsvalue \<Rightarrow> jsobject \<Rightarrow> jsobject" where
  "obj_put k v obj = (if k = ''__proto__'' then obj else obj_set k v obj)"

text \<open>
  \<^verbatim>\<open>
  for (const prop of expr.properties) {
    if (t.isObjectProperty(prop) && (t.isIdentifier(prop.key) || t.isStringLiteral(prop.key))) {
      const key = t.isIdentifier(prop.key) ? prop.key.name : prop.key.value;
      if (t.isStringLiteral(prop.value)) obj[key] = prop.value.value;
      else if (t.isNumericLiteral(prop.value)) obj[key] = prop.value.value;
      else if (t.isBooleanLiteral(prop.value)) obj[key] = prop.value.value;
    }
  }
  \<close>
\<close>

fun literal_value :: "babel_node \<Rightarrow> jsvalue option" where
  "literal_value (StringLiteral s) = Some (VString s)"
| "literal_value (NumericLiteral n) = Some (VNumber n)"
| "literal_value (BooleanLiteral b) = Some (VBool b)"
| "literal_value _ = None"

fun extract_member :: "jsobject \<Rightarrow> obj_member \<Rightarrow> jsobject" where
  "extract_member obj (ObjectProperty (KeyIdentifier key) val) =
     (case literal_value val of Some v \<Rightarrow> obj_put key v obj | None \<Rightarrow> obj)"
| "extract_member obj (ObjectProperty (KeyStringLiteral key) val) =
     (case literal_value val of Some v \<Rightarrow> obj_put key v obj | None \<Rightarrow> obj)"
| "extract_member obj _ = obj"

definition extractObjectExpression :: "obj_member list \<Rightarrow> jsobject" where
  "extractObjectExpression properties = foldl extract_member [] properties"

text \<open>
  \<^verbatim>\<open>
  const name = t.isJSXIdentifier(attr.name) ? attr.name.name : String(attr.name);
  if (attr.value === null) props[name] = true;
  else if (t.isStringLiteral(attr.value)) props[name] = attr.value.value;
  else if (t.isJSXExpressionContainer(attr.value)) {
    const expr = attr.value.expression;
    if (t.isStringLiteral(expr)) props[name] = expr.value;
    else if (t.isNumericLiteral(expr)) props[name] = expr.value;
    else if (t.isBooleanLiteral(expr)) props[name] = expr.value;
    else if (t.isObjectExpression(expr)) props[name] = extractObjectExpression(expr);
    else if (t.isTemplateLiteral(expr)) props[name] = expr.quasis.map(q => q.value.raw).join('');
  }
  \<close>
  The assignments are those of \<open>props_put\<close>: an attribute \<^verbatim>\<open>__proto__={{...}}\<close> makes
  the object read from its expression the prototype of \<^verbatim>\<open>props\<close>.
\<close>

fun attr_name_string :: "attr_name \<Rightarrow> string" where
  "attr_name_string (AttrIdentifier name) = name"
| "attr_name_string (AttrNamespacedName namespace name) = ''[object Object]''"

fun expression_value :: "babel_node \<Rightarrow> jsvalue option" where
  "expression_value (StringLiteral s) = Some (VString s)"
| "expression_value (NumericLiteral n) = Some (VNumber n)"
| "expression_value (BooleanLiteral b) = Some (VBool b)"
| "expression_value (ObjectExpression properties) = Some (VObject (extractObjectExpression properties))"
| "expression_value (TemplateLiteral quasis expressions) = Some (VString (concat quasis))"
| "expression_value _ = None"

fun attr_value :: "babel_node option \<Rightarrow> jsvalue option" where
  "attr_value None = Some (VBool True)"
| "attr_value (Some (StringLiteral s)) = Some (VString s)"
| "attr_value (Some (JSXExpressionContainer expr)) = expression_value expr"
| "attr_value (Some _) = None"

fun extract_attr :: "props_object \<Rightarrow> jsx_attr \<Rightarrow> props_object" where
  "extract_attr ps (JSXAttribute name val) =
     (case attr_value val of Some v \<Rightarrow> props_put (attr_name_string name) v ps | None \<Rightarrow> ps)"
| "extract_attr ps (JSXSpreadAttribute argument) = ps"

definition extractProps :: "jsx_attr list \<Rightarrow> props_object" where
  "extractProps attributes = foldl extract_attr (plain []) attributes"

text \<open>
  The conversion calls \<^verbatim>\<open>uuidv4()\<close> once for each node it builds. The model threads
  the number of calls made so far; \<open>uuidv4 k\<close> is what call number \<open>k\<close> returns. A node's
  id is drawn when its object literal is built, after its children were converted.
\<close>

fun convertJSXElement :: "(nat \<Rightarrow> string) \<Rightarrow> jsx_name \<Rightarrow> jsx_attr list \<Rightarrow> babel_node list \<Rightarrow> nat
      \<Rightarrow> EditorNode \<times> nat"
  and convertJSXFragment :: "(nat \<Rightarrow> string) \<Rightarrow> babel_node list \<Rightarrow> nat \<Rightarrow> EditorNode \<times> nat"
  and convertChildren :: "(nat \<Rightarrow> string) \<Rightarrow> babel_node list \<Rightarrow> nat \<Rightarrow> EditorNode list \<times> nat"
where
  "convertJSXElement uuidv4 name attributes kids n =
     (case convertChildren uuidv4 kids n of
        (cs, n1) \<Rightarrow>
          (EditorNode (uuidv4 n1) Element (Some (getTagName name)) (extractProps attributes) cs None,
           Suc n1))"
| "convertJSXFragment uuidv4 kids n =
     (case convertChildren uuidv4 kids n of
        (cs, n1) \<Rightarrow> (EditorNode (uuidv4 n1) Element (Some ''Fragment'') (plain []) cs None, Suc n1))"
| "convertChildren uuidv4 [] n = ([], n)"
| "convertChildren uuidv4 (JSXElement name attributes kids # rest) n =
     (case convertJSXElement uuidv4 name attributes kids n of
        (el, n1) \<Rightarrow> (case convertChildren uuidv4 rest n1 of (others, n2) \<Rightarrow> (el # others, n2)))"
| "convertChildren uuidv4 (JSXFragment kids # rest) n =
     (case convertJSXFragment uuidv4 kids n of
        (el, n1) \<Rightarrow> (case convertChildren uuidv4 rest n1 of (others, n2) \<Rightarrow> (el # others, n2)))"
| "convertChildren uuidv4 (JSXText val # rest) n =
     (if trim val \<noteq> [] then
        (case convertChildren uuidv4 rest (Suc n) of
           (others, n2) \<Rightarrow> (EditorNode (uuidv4 n) TextNode None (plain []) [] (Some (trim val)) # others, n2))
      else convertChildren uuidv4 rest n)"
| "convertChildren uuidv4 (JSXExpressionContainer (StringLiteral s) # rest) n =
     (case convertChildren uuidv4 rest (Suc n) of
        (others, n2) \<Rightarrow> (EditorNode (uuidv4 n) TextNode None (plain []) [] (Some s) # others, n2))"
| "convertChildren uuidv4 (JSXExpressionContainer (TemplateLiteral quasis expressions) # rest) n =
     (if trim (concat quasis) \<noteq> [] then
        (case convertChildren uuidv4 rest (Suc n) of
           (others, n2) \<Rightarrow> (EditorNode (uuidv4 n) TextNode None (plain []) [] (Some (concat quasis)) # others, n2))
      else convertChildren uuidv4 rest n)"
| "convertChildren uuidv4 (child # rest) n = convertChildren uuidv4 rest n"

text \<open>
  The traversal with the two visitors: the first \<^verbatim>\<open>JSXElement\<close> or \<^verbatim>\<open>JSXFragment\<close>, in
  the order parents before children and siblings left to right, whose parent is the
  program or an expression statement; there the visitor converts the node and stops
  the traversal. \<open>at_root\<close> says that the parent is of these two kinds.
\<close>

fun first_root :: "bool \<Rightarrow> babel_node \<Rightarrow> babel_node option"
  and first_root_list :: "bool \<Rightarrow> babel_node list \<Rightarrow> babel_node option"
  and first_root_attrs :: "jsx_attr list \<Rightarrow> babel_node option"
  and first_root_members :: "obj_member list \<Rightarrow> babel_node option"
where
  "first_root at_root (Program body) = first_root_list True body"
| "first_root at_root (ExpressionStatement expression) = first_root True expression"
| "first_root at_root (JSXElement name attributes kids) =
     (if at_root then Some (JSXElement name attributes kids)
      else (case first_root_attrs attributes of
              Some r \<Rightarrow> Some r
            | None \<Rightarrow> first_root_list False kids))"
| "first_root at_root (JSXFragment kids) =
     (if at_root then Some (JSXFragment kids) else first_root_list False kids)"
| "first_root at_root (JSXExpressionContainer expression) = first_root False expression"
| "first_root at_root (JSXSpreadChild expression) = first_root False expression"
| "first_root at_root (ObjectExpression properties) = first_root_members properties"
| "first_root at_root (TemplateLiteral quasis expressions) = first_root_list False expressions"
| "first_root at_root (OtherNode subs) = first_root_list False subs"
| "first_root at_root (JSXText val) = None"
| "first_root at_root (StringLiteral s) = None"
| "first_root at_root (NumericLiteral v) = None"
| "first_root at_root (BooleanLiteral b) = None"
| "first_root_list at_root [] = None"
| "first_root_list at_root (node # rest) =
     (case first_root at_root node of Some r \<Rightarrow> Some r | None \<Rightarrow> first_root_list at_root rest)"
| "first_root_attrs [] = None"
| "first_root_attrs (JSXAttribute name None # rest) = first_root_attrs rest"
| "first_root_attrs (JSXAttribute name (Some val) # rest) =
     (case first_root False val of Some r \<Rightarrow> Some r | None \<Rightarrow> first_root_attrs rest)"
| "first_root_attrs (JSXSpreadAttribute argument # rest) =
     (case first_root False argument of Some r \<Rightarrow> Some r | None \<Rightarrow> first_root_attrs rest)"
| "first_root_members [] = None"
| "first_root_members (ObjectProperty (KeyOther key) val # rest) =
     (case first_root False key of
        Some r \<Rightarrow> Some r
      | None \<Rightarrow> (case first_root False val of Some r \<Rightarrow> Some r | None \<Rightarrow> first_root_members rest))"
| "first_root_members (ObjectProperty key val # rest) =
     (case first_root False val of Some r \<Rightarrow> Some r | None \<Rightarrow> first_root_members rest)"
| "first_root_members (OtherMember subs # rest) =
     (case first_root_list False subs of Some r \<Rightarrow> Some r | None \<Rightarrow> first_root_members rest)"

text \<open>
  \<^verbatim>\<open>
  export function parseJSX(code: string): EditorNode | null {
    try {
      let wrappedCode = code.trim();
      if (!wrappedCode.startsWith('<')) return null;
      const ast = parser.parse(wrappedCode, { sourceType: 'module', plugins: ['jsx', 'typescript'] });
      let rootNode: EditorNode | null = null;
      traverse(ast, { JSXElement(path) {...}, JSXFragment(path) {...} });
      return rootNode;
    } catch (error) {
      console.error('Parse error:', error);
      return null;
    }
  }
  \<close>
  The front end is a parameter: \<open>parser_parse\<close> gives the syntax tree of a text or the
  error it throws. \<open>parseJSX_try\<close> is the \<^verbatim>\<open>try\<close> block, whose \<open>Inl\<close> is a throw;
  \<open>parseJSX\<close> returns the result, the number of \<^verbatim>\<open>uuidv4\<close> calls made so far and what
  it wrote to the console.
\<close>

definition parseJSX_try ::
  "(string \<Rightarrow> js_error + babel_node) \<Rightarrow> (nat \<Rightarrow> string) \<Rightarrow> nat \<Rightarrow> string
     \<Rightarrow> js_error + (EditorNode option \<times> nat)" where
  "parseJSX_try parser_parse uuidv4 n code =
     (let wrappedCode = trim code in
      if \<not> starts_with wrappedCode ''<'' then Inr (None, n)
      else
        (case parser_parse wrappedCode of
           Inl error \<Rightarrow> Inl error
         | Inr ast \<Rightarrow>
             (case first_root False ast of
                Some (JSXElement name attributes kids) \<Rightarrow>
                  (case convertJSXElement uuidv4 name attributes kids n of
                     (rootNode, n') \<Rightarrow> Inr (Some rootNode, n'))
              | Some (JSXFragment kids) \<Rightarrow>
                  (case convertJSXFragment uuidv4 kids n of
                     (rootNode, n') \<Rightarrow> Inr (Some rootNode, n'))
              | _ \<Rightarrow> Inr (None, n))))"

definition parseJSX ::
  "(string \<Rightarrow> js_error + babel_node) \<Rightarrow> (nat \<Rightarrow> string) \<Rightarrow> nat \<Rightarrow> string
     \<Rightarrow> js_error + (EditorNode option \<times> nat \<times> js_error list)" where
  "parseJSX parser_parse uuidv4 n code =
     (case parseJSX_try parser_parse uuidv4 n code of
        Inr (rootNode, n') \<Rightarrow> Inr (rootNode, n', [])
      | Inl error \<Rightarrow> Inr (None, n, [error]))"

section \<open>The editor's parse effect (components/WebsiteEditor.tsx)\<close>

record editor_state =
  code :: string
  ast :: "EditorNode option"
  selected_id :: "string option"
  parseError :: "string option"
  isVisualEdit :: bool
  uuid_calls :: nat
  console :: "js_error list"

definition invalid_jsx_message :: string where
  "invalid_jsx_message = ''Invalid JSX. Paste static JSX only (no functions, hooks, or imports).''"

fun error_message :: "js_error \<Rightarrow> string" where
  "error_message (SyntaxError m) = m"
| "error_message (TypeError m) = m"

text \<open>
  \<^verbatim>\<open>
  if (isVisualEditRef.current) { isVisualEditRef.current = false; return; }
  try {
    const parsed = parseJSX(code);
    if (parsed) { setAst(parsed); setParseError(null); setSelectedId(null); }
    else if (code.trim()) setParseError('Invalid JSX. Paste static JSX only (...).');
    else { setAst(null); setParseError(null); }
  } catch (err) {
    setParseError(`Parse error: ${err instanceof Error ? err.message : 'Invalid JSX'}`);
  }
  \<close>
\<close>

definition on_code_change ::
  "(string \<Rightarrow> js_error + babel_node) \<Rightarrow> (nat \<Rightarrow> string) \<Rightarrow> editor_state \<Rightarrow> editor_state" where
  "on_code_change parser_parse uuidv4 st =
     (if isVisualEdit st then st\<lparr>isVisualEdit := False\<rparr>
      else
        (case parseJSX parser_parse uuidv4 (uuid_calls st) (code st) of
           Inr (parsed, n', logged) \<Rightarrow>
             (let st1 = st\<lparr>uuid_calls := n', console := console st @ logged\<rparr> in
              case parsed of
                Some tree \<Rightarrow> st1\<lparr>ast := Some tree, parseError := None, selected_id := None\<rparr>
              | None \<Rightarrow>
                  if trim (code st) \<noteq> [] then st1\<lparr>parseError := Some invalid_jsx_message\<rparr>
                  else st1\<lparr>ast := None, parseError := None\<rparr>)
         | Inl err \<Rightarrow> st\<lparr>parseError := Some (''Parse error: '' @ error_message err)\<rparr>))"

text \<open>
  Stand-ins for the two parameters at concrete inputs: ids that count in unary, and a
  front end that knows the syntax tree of \<^verbatim>\<open><p>Hi</p>\<close> and rejects every other text the
  way the real one rejects \<^verbatim>\<open><div\<close>.
\<close>

definition unary_uuid :: "nat \<Rightarrow> string" where
  "unary_uuid k = replicate (Suc k) CHR ''u''"

definition stub_front_end :: "string \<Rightarrow> js_error + babel_node" where
  "stub_front_end src =
     (if src = ''<p>Hi</p>''
      then Inr (Program [ExpressionStatement (JSXElement (JSXIdentifier ''p'') [] [JSXText ''Hi''])])
      else Inl (SyntaxError ''Unterminated JSX contents.''))"

definition fresh_editor :: "string \<Rightarrow> editor_state" where
  "fresh_editor src =
     \<lparr>code = src, ast = None, selected_id = None, parseError = None, isVisualEdit = False,
      uuid_calls = 0, console = []\<rparr>"

text \<open>The ids \<open>xs\<close> are what the calls number \<open>n\<close> up to \<open>n' - 1\<close> returned, each call
  once.\<close>

definition fresh_ids :: "(nat \<Rightarrow> string) \<Rightarrow> nat \<Rightarrow> nat \<Rightarrow> string list \<Rightarrow> bool" where
  "fresh_ids uuidv4 n n' xs = (n \<le> n' \<and> (\<exists>ks. xs = map uuidv4 ks \<and> distinct ks \<and> set ks = {n..<n'}))"

section \<open>Round trip: structure, and the markup a tree is printed as\<close>

text \<open>Two trees are structurally equal when they agree once their ids are blanked: same
  kinds, tags, attributes, text and nesting.\<close>

fun strip_ids :: "EditorNode \<Rightarrow> EditorNode" where
  "strip_ids (EditorNode i ty tn ps cs tc) = EditorNode [] ty tn ps (map strip_ids cs) tc"

definition same_structure :: "EditorNode \<Rightarrow> EditorNode \<Rightarrow> bool" where
  "same_structure a b = (strip_ids a = strip_ids b)"





subsection \<open>Trees whose markup keeps all of them\<close>













subsection \<open>The syntax tree of the printed markup\<close>





subsection \<open>The text of a syntax tree\<close>











section \<open>Well-formed objects\<close>

text \<open>
  A list stands for an object when its keys are distinct and stand in enumeration
  order: every array index before every other key, the indices ascending.
\<close>

definition key_before :: "string \<Rightarrow> string \<Rightarrow> bool" where
  "key_before k k' =
     (if is_array_index k' then is_array_index k \<and> dec_to_nat k < dec_to_nat k' else True)"

definition wf_obj :: "jsobject \<Rightarrow> bool" where
  "wf_obj obj = (distinct (obj_keys obj) \<and> sorted_wrt key_before (obj_keys obj))"

text \<open>A \<open>style\<close> attribute that is a string, a number or \<^verbatim>\<open>true\<close> rather than a
  style mapping.\<close>

fun style_scalar :: "jsvalue \<Rightarrow> bool" where
  "style_scalar (VBool b) = b"
| "style_scalar (VNumber n) = True"
| "style_scalar (VString s) = True"
| "style_scalar _ = False"

text \<open>
  The \<open>props\<close> that the empty style update prints as before. A \<open>style\<close> attribute of
  their own is a style mapping (not a string, a number or \<^verbatim>\<open>true\<close>). Without one,
  \<^verbatim>\<open>props.style\<close> is what a replaced prototype has under that key, and this spreads
  to nothing: it is no string other than the empty one and no object with properties.
\<close>

definition props_ok :: "props_object \<Rightarrow> bool" where
  "props_ok ps =
     (wf_obj (own ps) \<and>
      (if ''style'' \<in> set (obj_keys (own ps))
       then \<not> style_scalar (obj_get (own ps) ''style'') \<and>
            wf_obj (own_props (or_empty (obj_get (own ps) ''style'')))
       else own_props (or_empty (props_get ps ''style'')) = []))"

fun styles_are_mappings :: "EditorNode \<Rightarrow> bool" where
  "styles_are_mappings (EditorNode i ty tn ps cs tc) = (props_ok ps \<and> list_all styles_are_mappings cs)"

text \<open>Two small trees used as concrete inputs below:
  \<^verbatim>\<open><div className="p-6" style={{ color: "red" }}>Hi</div>\<close> and
  \<^verbatim>\<open><div style="red" />\<close>, as the parser builds them.\<close>

definition styled_div :: EditorNode where
  "styled_div =
     EditorNode ''n2'' Element (Some ''div'')
       (plain [(''className'', VString ''p-6''), (''style'', VObject [(''color'', VString ''red'')])])
       [EditorNode ''n1'' TextNode None (plain []) [] (Some ''Hi'')] None"

definition string_styled_div :: EditorNode where
  "string_styled_div =
     EditorNode ''n1'' Element (Some ''div'') (plain [(''style'', VString ''red'')]) [] None"

text \<open>
  \<^verbatim>\<open><div __proto__={{ style: "red" }} />\<close>: the syntax tree of this text, a front end
  that knows it, and the tree the parser builds, whose \<open>props\<close> have no property of
  their own and inherit a \<open>style\<close>. Then
  \<^verbatim>\<open><div __proto__={{ className: "p-6" }} style={{ color: "red" }} />\<close> as the parser
  builds it, which inherits a class name only.
\<close>

definition proto_styled_markup :: string where
  "proto_styled_markup = ''<div __proto__={{ style: \"red\" }} />''"

definition proto_styled_syntax :: babel_node where
  "proto_styled_syntax =
     JSXElement (JSXIdentifier ''div'')
       [JSXAttribute (AttrIdentifier ''__proto__'')
          (Some (JSXExpressionContainer
             (ObjectExpression [ObjectProperty (KeyIdentifier ''style'') (StringLiteral ''red'')])))]
       []"

definition proto_front_end :: "string \<Rightarrow> js_error + babel_node" where
  "proto_front_end src =
     (if src = proto_styled_markup then Inr (Program [ExpressionStatement proto_styled_syntax])
      else Inl (SyntaxError ''Unexpected token''))"

definition proto_styled_div :: EditorNode where
  "proto_styled_div =
     EditorNode ''u'' Element (Some ''div'') (Props [] (Some [(''style'', VString ''red'')])) [] None"

definition proto_classed_div :: EditorNode where
  "proto_classed_div =
     EditorNode ''n1'' Element (Some ''div'')
       (Props [(''style'', VObject [(''color'', VString ''red'')])]
              (Some [(''className'', VString ''p-6'')])) [] None"

text \<open>\<^verbatim>\<open><div className="bg-blue-500" style={{ backgroundColor: "#fff" }} />\<close>\<close>

definition blue_box :: EditorNode where
  "blue_box =
     EditorNode ''n1'' Element (Some ''div'')
       (plain [(''className'', VString ''bg-blue-500''),
               (''style'', VObject [(''backgroundColor'', VString ''#fff'')])]) [] None"

section \<open>Updates that miss\<close>

lemma updateNodeStyle_absent:
  "ident \<notin> set (ids t) \<Longrightarrow> updateNodeStyle t ident u = t"
proof (induction t)
  case (EditorNode i ty tn ps cs tc)
  have "map (\<lambda>child. updateNodeStyle child ident u) cs = cs"
  proof (rule map_idI)
    fix c assume c: "c \<in> set cs"
    with EditorNode.prems have "ident \<notin> set (ids c)" by auto
    with c show "updateNodeStyle c ident u = c" by (rule EditorNode.IH)
  qed
  with EditorNode.prems show ?case by auto
qed

lemma updateNodeText_absent:
  "ident \<notin> set (ids t) \<Longrightarrow> updateNodeText t ident txt = t"
proof (induction t)
  case (EditorNode i ty tn ps cs tc)
  have "map (\<lambda>child. updateNodeText child ident txt) cs = cs"
  proof (rule map_idI)
    fix c assume c: "c \<in> set cs"
    with EditorNode.prems have "ident \<notin> set (ids c)" by auto
    with c show "updateNodeText c ident txt = c" by (rule EditorNode.IH)
  qed
  with EditorNode.prems show ?case by auto
qed


text \<open>
  C3. Updating the style or the text of an id that no node of the tree carries gives
  back the tree itself. Both functions are total: they read fields every node has,
  copy objects and map over the children, and none of that can throw.
\<close>

theorem update_missing_id_is_noop:
  "ident \<notin> set (ids t) \<Longrightarrow> updateNodeStyle t ident u = t \<and> updateNodeText t ident txt = t"
  by (simp add: updateNodeStyle_absent updateNodeText_absent)

theorem update_missing_id_is_noop_witness:
  "''zz'' \<notin> set (ids styled_div) \<and>
   updateNodeStyle styled_div ''zz'' [(''color'', VString ''blue'')] = styled_div \<and>
   updateNodeText styled_div ''zz'' ''Bye'' = styled_div"
  using update_missing_id_is_noop [of "''zz''" styled_div "[(''color'', VString ''blue'')]" "''Bye''"]
  by (simp add: styled_div_def)

section \<open>The empty style update\<close>

lemma obj_insert_last:
  "list_all (\<lambda>k'. key_before k' k) (obj_keys obj) \<Longrightarrow> obj_insert k v obj = obj @ [(k, v)]"
  by (induction obj) (auto simp: obj_keys_def key_before_def split: if_splits)

lemma obj_set_last:
  assumes "wf_obj (obj @ [(k, v)])"
  shows "obj_set k v obj = obj @ [(k, v)]"
proof -
  from assms have nin: "k \<notin> set (obj_keys obj)"
    and bef: "list_all (\<lambda>k'. key_before k' k) (obj_keys obj)"
    by (auto simp: wf_obj_def obj_keys_def sorted_wrt_append list_all_iff)
  show ?thesis using nin obj_insert_last [OF bef] by (simp add: obj_set_def)
qed

lemma wf_obj_butlast: "wf_obj (obj @ [kv]) \<Longrightarrow> wf_obj obj"
  by (auto simp: wf_obj_def obj_keys_def sorted_wrt_append)

lemma obj_assign_snoc: "obj_assign acc (src @ [(k, v)]) = obj_set k v (obj_assign acc src)"
  by (simp add: obj_assign_def)

lemma obj_assign_copy: "wf_obj obj \<Longrightarrow> obj_assign [] obj = obj"
proof (induction obj rule: rev_induct)
  case Nil
  show ?case by (simp add: obj_assign_def)
next
  case (snoc kv obj)
  obtain k v where kv: "kv = (k, v)" by (cases kv)
  from snoc.prems have "wf_obj obj" by (rule wf_obj_butlast)
  then have "obj_assign [] obj = obj" by (rule snoc.IH)
  then show ?case using snoc.prems obj_set_last [of obj k v] by (simp add: kv obj_assign_snoc)
qed

lemma obj_assign_nil: "obj_assign acc [] = acc"
  by (simp add: obj_assign_def)

lemma obj_get_absent: "k \<notin> set (obj_keys obj) \<Longrightarrow> obj_get obj k = VUndefined"
  by (induction obj) (auto simp: obj_keys_def)

lemma style_not_index: "\<not> is_array_index ''style''"
  by (simp add: is_array_index_def is_digit_def)

lemma obj_insert_plain: "\<not> is_array_index k \<Longrightarrow> obj_insert k v obj = obj @ [(k, v)]"
  by (induction obj) auto

lemma parts_obj_replace:
  "prop_part (k, v') = prop_part (k, obj_get obj k) \<Longrightarrow>
   concat (map prop_part (obj_replace k v' obj)) = concat (map prop_part obj)"
  by (induction obj) auto

lemma prop_part_empty_style: "prop_part (''style'', VObject []) = []"
  by (simp add: prop_part_def serializeStyle_def)

lemma prop_part_restyle:
  assumes "\<not> style_scalar v" and "wf_obj (own_props (or_empty v))"
  shows "prop_part (''style'', VObject (obj_assign [] (own_props (or_empty v)))) = prop_part (''style'', v)"
proof (cases v)
  case (VObject so)
  with assms(2) show ?thesis by (simp add: or_empty_def obj_assign_copy)
next
  case (VInherited k)
  then show ?thesis
    by (simp add: or_empty_def obj_assign_nil prop_part_def serializeStyle_def)
qed (use assms(1) in \<open>simp_all add: or_empty_def obj_assign_nil prop_part_def serializeStyle_def\<close>)

lemma parts_restyle:
  assumes "props_ok ps"
  shows "concat (map prop_part
           (obj_set ''style''
              (VObject (obj_assign (obj_assign [] (own_props (or_empty (props_get ps ''style'')))) []))
              (obj_assign [] (own ps)))) = concat (map prop_part (own ps))"
proof (cases "''style'' \<in> set (obj_keys (own ps))")
  case True
  let ?v = "obj_get (own ps) ''style''"
  let ?v' = "VObject (obj_assign [] (own_props (or_empty ?v)))"
  from True have own_style: "props_get ps ''style'' = ?v" by (simp add: props_get_def)
  from assms True have wf: "wf_obj (own ps)" and ns: "\<not> style_scalar ?v"
    and wfs: "wf_obj (own_props (or_empty ?v))"
    by (simp_all add: props_ok_def)
  have same: "prop_part (''style'', ?v') = prop_part (''style'', ?v)"
    using ns wfs by (rule prop_part_restyle)
  show ?thesis
    using True same
    by (simp add: own_style obj_assign_copy [OF wf] obj_assign_nil obj_set_def parts_obj_replace)
next
  case False
  from assms False have wf: "wf_obj (own ps)"
    and spread: "own_props (or_empty (props_get ps ''style'')) = []"
    by (simp_all add: props_ok_def)
  from False show ?thesis
    by (simp add: spread obj_assign_copy [OF wf] obj_assign_nil obj_set_def
        obj_insert_plain [OF style_not_index] prop_part_empty_style)
qed

lemma serializeProps_restyle:
  "props_ok ps \<Longrightarrow>
   serializeProps (obj_set ''style''
              (VObject (obj_assign (obj_assign [] (own_props (or_empty (props_get ps ''style'')))) []))
              (obj_assign [] (own ps))) = serializeProps (own ps)"
  by (simp only: serializeProps_def parts_restyle)

lemma updateNodeStyle_type [simp]: "node_type (updateNodeStyle t ident u) = node_type t"
  by (cases t) simp

lemma updateNodeStyle_text [simp]: "textContent (updateNodeStyle t ident u) = textContent t"
  by (cases t) simp

lemma serialize_map_children:
  assumes f: "\<And>c. c \<in> set cs \<Longrightarrow> node_type (f c) = node_type c \<and> textContent (f c) = textContent c
                \<and> (\<forall>m. serializeToJSX (f c) m = serializeToJSX c m)"
  shows "serializeToJSX (EditorNode i ty tn ps (map f cs) tc) n
       = serializeToJSX (EditorNode i ty tn ps cs tc) n"
proof (cases cs)
  case Nil
  then show ?thesis by simp
next
  case (Cons c cs')
  have a: "map (\<lambda>child. serializeToJSX child n) (map f cs) = map (\<lambda>child. serializeToJSX child n) cs"
    using f by (simp add: comp_def)
  have b: "map (\<lambda>child. if node_type child = TextNode
                         then indent_str n @ ''  '' @ or_blank (textContent child)
                         else serializeToJSX child (n + 1)) (map f cs)
         = map (\<lambda>child. if node_type child = TextNode
                         then indent_str n @ ''  '' @ or_blank (textContent child)
                         else serializeToJSX child (n + 1)) cs"
    using f by (simp add: comp_def)
  have c: "list_all (\<lambda>c. node_type c = TextNode) (map f cs) = list_all (\<lambda>c. node_type c = TextNode) cs"
    using f by (simp add: list_all_iff)
  have e: "textContent (hd (map f cs)) = textContent (hd cs)"
    using f Cons by simp
  show ?thesis
    by (simp only: serializeToJSX.simps Let_def a b c e length_map)
qed

lemma serialize_empty_update_aux:
  "styles_are_mappings t \<Longrightarrow> serializeToJSX (updateNodeStyle t ident []) n = serializeToJSX t n"
proof (induction t arbitrary: n)
  case (EditorNode i ty tn ps cs tc)
  show ?case
  proof (cases "i = ident")
    case True
    from EditorNode.prems have "props_ok ps" by simp
    then show ?thesis using True by (simp add: serializeProps_restyle Let_def)
  next
    case False
    have "serializeToJSX (EditorNode i ty tn ps (map (\<lambda>child. updateNodeStyle child ident []) cs) tc) n
        = serializeToJSX (EditorNode i ty tn ps cs tc) n"
    proof (rule serialize_map_children)
      fix c assume c: "c \<in> set cs"
      with EditorNode.prems have "styles_are_mappings c" by (simp add: list_all_iff)
      with c have "\<forall>m. serializeToJSX (updateNodeStyle c ident []) m = serializeToJSX c m"
        using EditorNode.IH by blast
      then show "node_type (updateNodeStyle c ident []) = node_type c \<and>
                 textContent (updateNodeStyle c ident []) = textContent c \<and>
                 (\<forall>m. serializeToJSX (updateNodeStyle c ident []) m = serializeToJSX c m)"
        by simp
    qed
    with False show ?thesis by simp
  qed
qed


lemma styled_div_ok: "styles_are_mappings styled_div"
  by (simp add: styled_div_def props_ok_def wf_obj_def obj_keys_def key_before_def
      is_array_index_def is_digit_def or_empty_def props_get_def inherited_def
      object_prototype_keys_def)

lemma proto_classed_div_ok: "styles_are_mappings proto_classed_div"
  by (simp add: proto_classed_div_def props_ok_def wf_obj_def obj_keys_def key_before_def
      is_array_index_def is_digit_def or_empty_def)

lemma proto_classed_markup:
  "serializeToJSX proto_classed_div 0 = ''<div style={{ color: \"red\" }} />''"
  by (simp add: proto_classed_div_def serializeProps_def prop_part_def serializeStyle_def
      style_part_def indent_str_def or_blank_def)

text \<open>
  C8, as the code has it. Take a tree whose objects are well formed and in which the
  style of every node, as the update reads it, is a style mapping or absent: a
  \<open>style\<close> attribute of the node's own is not a string, a number or \<^verbatim>\<open>true\<close>, and a
  node without one inherits no \<open>style\<close> that is a non-empty string or a non-empty
  object through a replaced prototype of its \<open>props\<close>. Then the empty style update
  leaves the serialized markup as it was, for every id and at every indentation.
\<close>

theorem empty_style_update_keeps_markup:
  "styles_are_mappings t \<Longrightarrow> serializeToJSX (updateNodeStyle t ident []) n = serializeToJSX t n"
  by (rule serialize_empty_update_aux)

theorem empty_style_update_keeps_markup_witness:
  "styles_are_mappings styled_div \<and>
   serializeToJSX (updateNodeStyle styled_div ''n2'' []) 0 = serializeToJSX styled_div 0 \<and>
   styles_are_mappings proto_classed_div \<and>
   serializeToJSX (updateNodeStyle proto_classed_div ''n1'' []) 0 = ''<div style={{ color: \"red\" }} />''"
  using empty_style_update_keeps_markup [of styled_div "''n2''" 0]
    empty_style_update_keeps_markup [of proto_classed_div "''n1''" 0]
    styled_div_ok proto_classed_div_ok
  by (simp add: proto_classed_markup)

text \<open>
  C8 as stated fails on \<^verbatim>\<open><div style="red" />\<close>: the update spreads the string into
  an object of its indexed characters, and the markup changes.
\<close>

theorem empty_style_update_changes_string_style:
  "serializeToJSX string_styled_div 0 = ''<div style=\"red\" />'' \<and>
   serializeToJSX (updateNodeStyle string_styled_div ''n1'' []) 0
     = ''<div style={{ 0: \"r\", 1: \"e\", 2: \"d\" }} />'' \<and>
   serializeToJSX (updateNodeStyle string_styled_div ''n1'' []) 0 \<noteq> serializeToJSX string_styled_div 0"
  by (simp add: string_styled_div_def serializeProps_def prop_part_def serializeStyle_def
      style_part_def escapeString_def escape_char_def indent_str_def or_blank_def or_empty_def
      props_get_def obj_assign_def obj_set_def obj_keys_def is_array_index_def is_digit_def
      dec_to_nat_def digit_val_def nat_to_dec.simps digit_char_def)

text \<open>
  A style that \<open>props\<close> inherit is spread in the same way. The parser makes the
  object of \<^verbatim>\<open><div __proto__={{ style: "red" }} />\<close> the prototype of \<open>props\<close>, which
  have no property of their own and are printed as \<^verbatim>\<open><div />\<close>; the update reads
  \<^verbatim>\<open>props.style\<close> through the prototype and writes its characters into a \<open>style\<close>
  attribute of the node.
\<close>

lemma proto_styled_parsed:
  "parseJSX proto_front_end unary_uuid 0 proto_styled_markup = Inr (Some proto_styled_div, 1, [])"
  by (simp add: parseJSX_def parseJSX_try_def proto_front_end_def proto_styled_markup_def
      proto_styled_syntax_def trim_def is_space_def starts_with_def unary_uuid_def
      extractProps_def props_put_def extractObjectExpression_def obj_put_def obj_set_def
      obj_keys_def is_array_index_def is_digit_def proto_styled_div_def)

lemma inherited_style_is_spread:
  "props_get (props proto_styled_div) ''style'' = VString ''red'' \<and>
   \<not> styles_are_mappings proto_styled_div \<and>
   serializeToJSX proto_styled_div 0 = ''<div />'' \<and>
   serializeToJSX (updateNodeStyle proto_styled_div ''u'' []) 0
     = ''<div style={{ 0: \"r\", 1: \"e\", 2: \"d\" }} />''"
  by (simp add: proto_styled_div_def props_ok_def wf_obj_def serializeProps_def prop_part_def
      serializeStyle_def style_part_def escapeString_def escape_char_def indent_str_def
      or_blank_def or_empty_def props_get_def obj_assign_def obj_set_def obj_keys_def
      is_array_index_def is_digit_def dec_to_nat_def digit_val_def nat_to_dec.simps digit_char_def)


section \<open>Objects: keys and lookups after assignment\<close>

lemma obj_keys_Nil: "obj_keys [] = []"
  by (simp add: obj_keys_def)

lemma obj_keys_Cons: "obj_keys ((k, v) # obj) = k # obj_keys obj"
  by (simp add: obj_keys_def)

lemma obj_keys_append: "obj_keys (obj @ obj') = obj_keys obj @ obj_keys obj'"
  by (simp add: obj_keys_def)

lemmas obj_keys_simps = obj_keys_Nil obj_keys_Cons obj_keys_append

lemma obj_keys_replace: "obj_keys (obj_replace k v obj) = obj_keys obj"
  by (induction obj) (auto simp: obj_keys_simps)

lemma set_obj_keys_insert: "set (obj_keys (obj_insert k v obj)) = insert k (set (obj_keys obj))"
  by (induction obj) (auto simp: obj_keys_simps split: if_splits)

lemma distinct_obj_insert:
  "k \<notin> set (obj_keys obj) \<Longrightarrow> distinct (obj_keys obj) \<Longrightarrow> distinct (obj_keys (obj_insert k v obj))"
proof (induction obj)
  case Nil
  then show ?case by (simp add: obj_keys_simps)
next
  case (Cons kv obj)
  obtain k' v' where kv: "kv = (k', v')" by (cases kv)
  from Cons.prems have "k \<notin> set (obj_keys obj)" "distinct (obj_keys obj)" "k' \<noteq> k"
    "k' \<notin> set (obj_keys obj)"
    by (auto simp: obj_keys_simps kv)
  then show ?case
    using Cons.IH set_obj_keys_insert [of k v obj] by (auto simp: obj_keys_simps kv)
qed

lemma distinct_obj_set: "distinct (obj_keys obj) \<Longrightarrow> distinct (obj_keys (obj_set k v obj))"
  by (simp add: obj_set_def obj_keys_replace distinct_obj_insert)

lemma set_obj_keys_set: "set (obj_keys (obj_set k v obj)) = insert k (set (obj_keys obj))"
  by (auto simp: obj_set_def obj_keys_replace set_obj_keys_insert)

lemma obj_get_replace:
  "obj_get (obj_replace k v obj) k' = (if k' = k \<and> k \<in> set (obj_keys obj) then v else obj_get obj k')"
  by (induction obj) (auto simp: obj_keys_simps)

lemma obj_get_insert:
  "k \<notin> set (obj_keys obj) \<Longrightarrow> obj_get (obj_insert k v obj) k' = (if k' = k then v else obj_get obj k')"
  by (induction obj) (auto simp: obj_keys_simps)

lemma obj_get_set: "obj_get (obj_set k v obj) k' = (if k' = k then v else obj_get obj k')"
  by (simp add: obj_set_def obj_get_replace obj_get_insert)

lemma distinct_obj_assign: "distinct (obj_keys acc) \<Longrightarrow> distinct (obj_keys (obj_assign acc src))"
proof (induction src rule: rev_induct)
  case Nil
  then show ?case by (simp add: obj_assign_nil)
next
  case (snoc kv src)
  then show ?case by (cases kv) (simp add: obj_assign_snoc distinct_obj_set)
qed

lemma obj_get_append:
  "obj_get (obj @ [(k, v)]) k' =
     (if k' \<in> set (obj_keys obj) then obj_get obj k' else if k' = k then v else VUndefined)"
  by (induction obj) (auto simp: obj_keys_simps)

lemma obj_get_assign_present:
  "distinct (obj_keys src) \<Longrightarrow> k \<in> set (obj_keys src) \<Longrightarrow> obj_get (obj_assign acc src) k = obj_get src k"
proof (induction src rule: rev_induct)
  case Nil
  then show ?case by (simp add: obj_keys_simps)
next
  case (snoc kv src)
  obtain k' v' where kv: "kv = (k', v')" by (cases kv)
  from snoc.prems have d: "distinct (obj_keys src)" and nin: "k' \<notin> set (obj_keys src)"
    by (auto simp: obj_keys_simps kv)
  show ?case
  proof (cases "k = k'")
    case True
    with nin show ?thesis by (simp add: kv obj_assign_snoc obj_get_set obj_get_append)
  next
    case False
    with snoc.prems have "k \<in> set (obj_keys src)" by (auto simp: obj_keys_simps kv)
    with d False snoc.IH show ?thesis
      by (simp add: kv obj_assign_snoc obj_get_set obj_get_append)
  qed
qed

lemma obj_get_assign_absent:
  "k \<notin> set (obj_keys src) \<Longrightarrow> obj_get (obj_assign acc src) k = obj_get acc k"
proof (induction src rule: rev_induct)
  case Nil
  then show ?case by (simp add: obj_assign_nil)
next
  case (snoc kv src)
  then show ?case by (cases kv) (auto simp: obj_assign_snoc obj_get_set obj_keys_simps)
qed

lemma wf_obj_set_plain:
  assumes "\<not> is_array_index k" and "wf_obj obj"
  shows "wf_obj (obj_set k v obj)"
proof (cases "k \<in> set (obj_keys obj)")
  case True
  with assms(2) show ?thesis by (simp add: obj_set_def wf_obj_def obj_keys_replace)
next
  case False
  with assms show ?thesis
    by (simp add: obj_set_def obj_insert_plain wf_obj_def obj_keys_simps sorted_wrt_append key_before_def)
qed

lemma plain_property_names:
  "\<not> is_array_index ''fontSize''" "\<not> is_array_index ''fontWeight''" "\<not> is_array_index ''color''"
  "\<not> is_array_index ''backgroundColor''" "\<not> is_array_index ''padding''"
  "\<not> is_array_index ''paddingLeft''" "\<not> is_array_index ''paddingRight''"
  "\<not> is_array_index ''paddingTop''" "\<not> is_array_index ''paddingBottom''"
  "\<not> is_array_index ''margin''" "\<not> is_array_index ''marginLeft''"
  "\<not> is_array_index ''marginRight''" "\<not> is_array_index ''marginTop''"
  "\<not> is_array_index ''marginBottom''" "\<not> is_array_index ''borderRadius''"
  "\<not> is_array_index ''display''" "\<not> is_array_index ''flexDirection''"
  "\<not> is_array_index ''alignItems''" "\<not> is_array_index ''justifyContent''"
  "\<not> is_array_index ''gap''"
  by (simp_all add: is_array_index_def is_digit_def)

lemma wf_set_color: "\<not> is_array_index property \<Longrightarrow> wf_obj styles \<Longrightarrow> wf_obj (set_color property m styles)"
  by (simp add: set_color_def wf_obj_set_plain)

lemma wf_font_size_step: "wf_obj styles \<Longrightarrow> wf_obj (font_size_step cls styles)"
  by (simp add: font_size_step_def Let_def wf_obj_set_plain plain_property_names)

lemma wf_font_weight_step: "wf_obj styles \<Longrightarrow> wf_obj (font_weight_step cls styles)"
  by (simp add: font_weight_step_def Let_def wf_obj_set_plain plain_property_names)

lemma wf_text_color_step: "wf_obj styles \<Longrightarrow> wf_obj (text_color_step cls styles)"
  by (simp add: text_color_step_def wf_set_color plain_property_names split: option.splits)

lemma wf_bg_color_step: "wf_obj styles \<Longrightarrow> wf_obj (bg_color_step cls styles)"
  by (simp add: bg_color_step_def wf_set_color plain_property_names split: option.splits)

lemma wf_foldl_set:
  "list_all (\<lambda>p. \<not> is_array_index p) properties \<Longrightarrow> wf_obj styles \<Longrightarrow>
   wf_obj (foldl (\<lambda>acc property. obj_set property v acc) styles properties)"
  by (induction properties arbitrary: styles) (simp_all add: wf_obj_set_plain)

lemma wf_spacing_step:
  "list_all (\<lambda>p. \<not> is_array_index p) properties \<Longrightarrow> wf_obj styles \<Longrightarrow>
   wf_obj (spacing_step prefix properties cls styles)"
  by (simp add: spacing_step_def wf_foldl_set split: option.splits)

lemma wf_radius_step: "wf_obj styles \<Longrightarrow> wf_obj (radius_step cls styles)"
  by (simp add: radius_step_def Let_def wf_obj_set_plain plain_property_names)

lemma wf_flex_step: "wf_obj styles \<Longrightarrow> wf_obj (flex_step cls styles)"
  by (simp add: flex_step_def Let_def wf_obj_set_plain plain_property_names)

lemma wf_apply_class: "wf_obj styles \<Longrightarrow> wf_obj (apply_class styles cls)"
  unfolding apply_class_def
  by (intro wf_flex_step wf_radius_step wf_spacing_step wf_bg_color_step wf_text_color_step
      wf_font_weight_step wf_font_size_step) (simp_all add: plain_property_names)

lemma wf_foldl_apply_class: "wf_obj styles \<Longrightarrow> wf_obj (foldl apply_class styles clss)"
  by (induction clss arbitrary: styles) (simp_all add: wf_apply_class)

lemma wf_getComputedStyles: "wf_obj (getComputedStylesFromClassName className)"
  unfolding getComputedStylesFromClassName_def
  by (rule wf_foldl_apply_class) (simp add: wf_obj_def obj_keys_simps)

lemma wf_obj_Nil: "wf_obj []"
  by (simp add: wf_obj_def obj_keys_simps)

lemma wf_classStyles: "wf_obj (classStyles node)"
  by (simp add: classStyles_def wf_getComputedStyles wf_obj_Nil split: jsvalue.splits)

lemma merged_class_remains:
  "k \<notin> set (obj_keys (extractStyleFromNode node)) \<Longrightarrow>
   obj_get (mergedStyles node) k = obj_get (classStyles node) k"
  unfolding mergedStyles_def
  by (simp add: obj_get_assign_absent obj_assign_copy [OF wf_classStyles])

lemma distinct_extractStyle: "distinct (obj_keys (extractStyleFromNode node))"
  unfolding extractStyleFromNode_def by (rule distinct_obj_assign) (simp add: obj_keys_simps)

lemma merged_inline_wins:
  "k \<in> set (obj_keys (extractStyleFromNode node)) \<Longrightarrow>
   obj_get (mergedStyles node) k = obj_get (extractStyleFromNode node) k"
  unfolding mergedStyles_def by (rule obj_get_assign_present [OF distinct_extractStyle])



section \<open>The style resolver on concrete class lists\<close>

lemmas resolver_defs =
  apply_class_def font_size_step_def font_weight_step_def
  text_color_step_def bg_color_step_def spacing_step_def radius_step_def flex_step_def
  set_color_def color_key_def px4_def table_get_def inherited_def object_prototype_keys_def colorMap_def
  sizes_def size_keywords_def match_digits_def match_word_num_def starts_with_def
  is_word_char_def is_space_def is_digit_def dec_to_nat_def digit_val_def digit_char_def
  obj_set_def obj_keys_def is_array_index_def

lemma split_heading_classes:
  "split_ws ''text-3xl font-bold text-white'' = [''text-3xl'', ''font-bold'', ''text-white'']"
  by (simp add: split_ws.simps is_space_def)

lemma split_box_classes:
  "split_ws ''p-6 bg-blue-500 rounded-lg'' = [''p-6'', ''bg-blue-500'', ''rounded-lg'']"
  by (simp add: split_ws.simps is_space_def)

lemma heading_styles:
  "getComputedStylesFromClassName ''text-3xl font-bold text-white''
     = [(''fontSize'', VString ''30px''), (''fontWeight'', VString ''bold''),
        (''color'', VString ''#ffffff'')]"
  unfolding getComputedStylesFromClassName_def split_heading_classes
  by (simp add: resolver_defs nat_to_dec.simps)

lemma box_styles:
  "getComputedStylesFromClassName ''p-6 bg-blue-500 rounded-lg''
     = [(''padding'', VString ''24px''), (''backgroundColor'', VString ''#3b82f6''),
        (''borderRadius'', VString ''8px'')]"
  unfolding getComputedStylesFromClassName_def split_box_classes
  by (simp add: resolver_defs nat_to_dec.simps)

text \<open>
  C5. The class list \<^verbatim>\<open>text-3xl font-bold text-white\<close> resolves to exactly
  \<^verbatim>\<open>{fontSize: "30px", fontWeight: "bold", color: "#ffffff"}\<close>, and
  \<^verbatim>\<open>p-6 bg-blue-500 rounded-lg\<close> to exactly
  \<^verbatim>\<open>{padding: "24px", backgroundColor: "#3b82f6", borderRadius: "8px"}\<close>, with the
  properties in this order.
\<close>

theorem concrete_class_resolution:
  "getComputedStylesFromClassName ''text-3xl font-bold text-white''
     = [(''fontSize'', VString ''30px''), (''fontWeight'', VString ''bold''),
        (''color'', VString ''#ffffff'')] \<and>
   getComputedStylesFromClassName ''p-6 bg-blue-500 rounded-lg''
     = [(''padding'', VString ''24px''), (''backgroundColor'', VString ''#3b82f6''),
        (''borderRadius'', VString ''8px'')]"
  by (simp only: heading_styles box_styles)

section \<open>Inline styles win over class styles\<close>

lemma blue_box_class_styles:
  "classStyles blue_box = [(''backgroundColor'', VString ''#3b82f6'')]"
  by (simp add: blue_box_def classStyles_def props_get_def getComputedStylesFromClassName_def
      split_ws.simps resolver_defs)

lemma blue_box_inline_styles:
  "extractStyleFromNode blue_box = [(''backgroundColor'', VString ''#fff'')]"
  by (simp add: blue_box_def extractStyleFromNode_def props_get_def or_empty_def obj_assign_def
      obj_set_def obj_keys_def is_array_index_def is_digit_def)

text \<open>
  C4. The panel's resolved styles are \<^verbatim>\<open>{ ...classStyles, ...inlineStyles }\<close>: a key
  of the inline mapping has the inline value, any other key the class-derived value.
  With the class list \<^verbatim>\<open>bg-blue-500\<close> (which alone gives \<^verbatim>\<open>#3b82f6\<close>) and the inline
  style \<^verbatim>\<open>{backgroundColor: "#fff"}\<close>, the resolved background colour is \<^verbatim>\<open>#fff\<close>.
\<close>

theorem inline_style_takes_precedence:
  "(k \<in> set (obj_keys (extractStyleFromNode node)) \<longrightarrow>
      obj_get (mergedStyles node) k = obj_get (extractStyleFromNode node) k) \<and>
   (k \<notin> set (obj_keys (extractStyleFromNode node)) \<longrightarrow>
      obj_get (mergedStyles node) k = obj_get (classStyles node) k) \<and>
   obj_get (classStyles blue_box) ''backgroundColor'' = VString ''#3b82f6'' \<and>
   obj_get (mergedStyles blue_box) ''backgroundColor'' = VString ''#fff''"
proof -
  have "obj_get (mergedStyles blue_box) ''backgroundColor''
      = obj_get (extractStyleFromNode blue_box) ''backgroundColor''"
    by (rule merged_inline_wins) (simp add: blue_box_inline_styles obj_keys_simps)
  then show ?thesis
    by (simp add: merged_inline_wins merged_class_remains blue_box_class_styles
        blue_box_inline_styles)
qed

lemma styled_div_class_styles: "classStyles styled_div = [(''padding'', VString ''24px'')]"
  by (simp add: styled_div_def classStyles_def props_get_def getComputedStylesFromClassName_def
      split_ws.simps resolver_defs nat_to_dec.simps)

lemma styled_div_inline_styles: "extractStyleFromNode styled_div = [(''color'', VString ''red'')]"
  by (simp add: styled_div_def extractStyleFromNode_def props_get_def or_empty_def obj_assign_def
      obj_set_def obj_keys_def is_array_index_def is_digit_def)

theorem inline_style_takes_precedence_witness:
  "''backgroundColor'' \<in> set (obj_keys (extractStyleFromNode blue_box)) \<and>
   ''backgroundColor'' \<in> set (obj_keys (classStyles blue_box)) \<and>
   obj_get (mergedStyles blue_box) ''backgroundColor''
     = obj_get (extractStyleFromNode blue_box) ''backgroundColor'' \<and>
   obj_get (extractStyleFromNode blue_box) ''backgroundColor'' = VString ''#fff'' \<and>
   ''padding'' \<notin> set (obj_keys (extractStyleFromNode styled_div)) \<and>
   obj_get (mergedStyles styled_div) ''padding'' = VString ''24px''"
  using inline_style_takes_precedence [of "''backgroundColor''" blue_box]
    inline_style_takes_precedence [of "''padding''" styled_div]
  by (simp add: blue_box_inline_styles blue_box_class_styles styled_div_class_styles
      styled_div_inline_styles obj_keys_simps)


section \<open>Gradient detection in the property panel\<close>

lemma starts_with_includes: "starts_with s p \<Longrightarrow> str_includes s p"
  by (cases s) (auto simp: starts_with_def str_includes.simps)

lemma starts_with_shorter:
  assumes "starts_with s (p @ q)"
  shows "starts_with s p"
proof -
  have "take (length p) s = take (length p) (take (length (p @ q)) s)" by (simp add: min_def)
  also have "\<dots> = take (length p) (p @ q)" using assms by (simp add: starts_with_def)
  also have "\<dots> = p" by simp
  finally show ?thesis by (simp add: starts_with_def)
qed

lemma gradient_at_includes: "gradient_at s = Some m \<Longrightarrow> str_includes s ''linear-gradient''"
proof -
  assume "gradient_at s = Some m"
  then have "starts_with s (''linear-gradient'' @ ''('')"
    by (simp add: gradient_at_def split: if_splits)
  then have "starts_with s ''linear-gradient''" by (rule starts_with_shorter)
  then show ?thesis by (rule starts_with_includes)
qed

lemma gradient_match_includes: "gradient_match s = Some m \<Longrightarrow> str_includes s ''linear-gradient''"
proof (induction s)
  case Nil
  then show ?case by (simp add: gradient_match.simps)
next
  case (Cons c cs)
  show ?case
  proof (cases "gradient_at (c # cs)")
    case None
    with Cons show ?thesis by (simp add: gradient_match.simps str_includes.simps)
  next
    case (Some m')
    then have "str_includes (c # cs) ''linear-gradient''" by (rule gradient_at_includes)
    then show ?thesis .
  qed
qed

lemma on_selected_string_background:
  assumes "obj_get (extractStyleFromNode node) ''backgroundImage'' = VString bg"
  shows "on_selected_node (Some node) st
       = Inr ((detect_background bg (mergedStyles node) (st\<lparr>localStyle := mergedStyles node\<rparr>))
               \<lparr>localText := node_text node\<rparr>)"
  using assms by (cases "bg = []") (simp_all add: on_selected_node_def Let_def)

text \<open>
  C9, as the code has it. When the inline background image is a string that contains
  \<^verbatim>\<open>linear-gradient\<close>, the panel treats the background as a gradient. If the
  three-group pattern matches, the direction and the two colour stops (trimmed) are
  taken from the match; if it does not, the extraction fails silently: direction and
  stops keep the values they had, and the background is still treated as a gradient.
\<close>

theorem gradient_detection:
  assumes "obj_get (extractStyleFromNode node) ''backgroundImage'' = VString bg"
  shows "(gradient_match bg = Some (d, f, t) \<longrightarrow>
            (\<exists>st'. on_selected_node (Some node) st = Inr st' \<and> backgroundType st' = Gradient \<and>
                   gradientDirection st' = d \<and> gradientFrom st' = trim f \<and> gradientTo st' = trim t)) \<and>
         (str_includes bg ''linear-gradient'' \<and> gradient_match bg = None \<longrightarrow>
            (\<exists>st'. on_selected_node (Some node) st = Inr st' \<and> backgroundType st' = Gradient \<and>
                   gradientDirection st' = gradientDirection st \<and>
                   gradientFrom st' = gradientFrom st \<and> gradientTo st' = gradientTo st))"
  using gradient_match_includes [of bg "(d, f, t)"]
  by (auto simp: on_selected_string_background [OF assms] detect_background_def)

lemma one_colour_inline:
  "extractStyleFromNode one_colour_gradient_box = [(''backgroundImage'', VString ''linear-gradient(red)'')]"
  by (simp add: one_colour_gradient_box_def extractStyleFromNode_def props_get_def or_empty_def
      obj_assign_def obj_set_def obj_keys_def is_array_index_def is_digit_def)

lemma two_colour_inline:
  "extractStyleFromNode two_colour_gradient_box
     = [(''backgroundImage'', VString ''linear-gradient(to left, #fff, #000)'')]"
  by (simp add: two_colour_gradient_box_def extractStyleFromNode_def props_get_def or_empty_def
      obj_assign_def obj_set_def obj_keys_def is_array_index_def is_digit_def)

lemma one_colour_no_match: "gradient_match ''linear-gradient(red)'' = None"
  by (simp add: gradient_match.simps gradient_at_def starts_with_def)

lemma one_colour_includes: "str_includes ''linear-gradient(red)'' ''linear-gradient''"
  by (simp add: str_includes.simps starts_with_def)

lemma two_colour_match:
  "gradient_match ''linear-gradient(to left, #fff, #000)'' = Some (''to left'', ''#fff'', ''#000'')"
  by (simp add: gradient_match.simps gradient_at_def starts_with_def after_spaces_def is_space_def)

lemma one_colour_class: "classStyles one_colour_gradient_box = []"
  by (simp add: classStyles_def one_colour_gradient_box_def props_get_def inherited_def
      object_prototype_keys_def obj_keys_def)

lemma one_colour_merged:
  "mergedStyles one_colour_gradient_box = [(''backgroundImage'', VString ''linear-gradient(red)'')]"
  by (simp add: mergedStyles_def one_colour_inline one_colour_class
       obj_assign_def obj_set_def obj_keys_def is_array_index_def is_digit_def)

lemma one_colour_text: "node_text one_colour_gradient_box = []"
  by (simp add: node_text_def first_text_child_def one_colour_gradient_box_def)

lemma one_colour_selected:
  "on_selected_node (Some one_colour_gradient_box) st
     = Inr (st\<lparr>localStyle := [(''backgroundImage'', VString ''linear-gradient(red)'')],
               localText := [], backgroundType := Gradient\<rparr>)"
proof -
  have "obj_get (extractStyleFromNode one_colour_gradient_box) ''backgroundImage''
      = VString ''linear-gradient(red)''"
    by (simp add: one_colour_inline)
  then show ?thesis
    by (simp add: on_selected_string_background one_colour_merged one_colour_text
        detect_background_def one_colour_includes one_colour_no_match)
qed

text \<open>
  C9 as stated fails on \<^verbatim>\<open>linear-gradient(red)\<close>: the value contains a gradient and
  does not match the pattern, and the panel, which started as solid, switches to
  gradient.
\<close>

theorem malformed_gradient_is_not_solid:
  "str_includes ''linear-gradient(red)'' ''linear-gradient'' \<and>
   gradient_match ''linear-gradient(red)'' = None \<and>
   on_selected_node (Some one_colour_gradient_box) initial_panel
     = Inr (initial_panel\<lparr>localStyle := [(''backgroundImage'', VString ''linear-gradient(red)'')],
                           backgroundType := Gradient\<rparr>) \<and>
   backgroundType initial_panel = Solid"
  by (simp only: one_colour_includes one_colour_no_match one_colour_selected)
     (simp add: initial_panel_def)

theorem gradient_detection_witness:
  "(\<exists>st'. on_selected_node (Some two_colour_gradient_box) initial_panel = Inr st' \<and>
          backgroundType st' = Gradient \<and> gradientDirection st' = ''to left'' \<and>
          gradientFrom st' = ''#fff'' \<and> gradientTo st' = ''#000'') \<and>
   (\<exists>st'. on_selected_node (Some one_colour_gradient_box) initial_panel = Inr st' \<and>
          backgroundType st' = Gradient \<and> gradientDirection st' = ''to right'' \<and>
          gradientFrom st' = ''#8b5cf6'' \<and> gradientTo st' = ''#3b82f6'')"
  using gradient_detection [of two_colour_gradient_box "''linear-gradient(to left, #fff, #000)''"
          "''to left''" "''#fff''" "''#000''" initial_panel]
        gradient_detection [of one_colour_gradient_box "''linear-gradient(red)''" "[]" "[]" "[]" initial_panel]
  by (simp add: two_colour_inline one_colour_inline two_colour_match one_colour_no_match
      one_colour_includes trim_def is_space_def initial_panel_def)


section \<open>Double click and inline text editing\<close>








section \<open>Ids of a parsed tree\<close>

lemma fresh_ids_nil: "fresh_ids u n n []"
  by (simp add: fresh_ids_def)

lemma fresh_ids_append:
  assumes "fresh_ids u n n1 xs" and "fresh_ids u n1 n2 ys"
  shows "fresh_ids u n n2 (xs @ ys)"
proof -
  from assms(1) obtain ks where ks: "n \<le> n1" "xs = map u ks" "distinct ks" "set ks = {n..<n1}"
    by (auto simp: fresh_ids_def)
  from assms(2) obtain ls where ls: "n1 \<le> n2" "ys = map u ls" "distinct ls" "set ls = {n1..<n2}"
    by (auto simp: fresh_ids_def)
  have "xs @ ys = map u (ks @ ls)" using ks ls by simp
  moreover have "distinct (ks @ ls)" using ks ls by auto
  moreover have "set (ks @ ls) = {n..<n2}" using ks ls by auto
  ultimately show ?thesis using ks(1) ls(1) unfolding fresh_ids_def by (intro conjI exI [of _ "ks @ ls"]) auto
qed

lemma fresh_ids_one: "fresh_ids u n (Suc n) [u n]"
  unfolding fresh_ids_def by (intro conjI exI [of _ "[n]"]) auto

lemma fresh_ids_node:
  assumes "fresh_ids u n n1 xs"
  shows "fresh_ids u n (Suc n1) (u n1 # xs)"
proof -
  from assms obtain ks where ks: "n \<le> n1" "xs = map u ks" "distinct ks" "set ks = {n..<n1}"
    by (auto simp: fresh_ids_def)
  show ?thesis unfolding fresh_ids_def using ks
    by (intro conjI exI [of _ "n1 # ks"]) auto
qed

lemma convert_fresh:
  "fresh_ids u n (snd (convertJSXElement u name attrs kids n)) (ids (fst (convertJSXElement u name attrs kids n)))"
  "fresh_ids u n (snd (convertJSXFragment u kids n)) (ids (fst (convertJSXFragment u kids n)))"
  "fresh_ids u n (snd (convertChildren u kids n)) (concat (map ids (fst (convertChildren u kids n))))"
proof (induction u name attrs kids n and u kids n and u kids n
    rule: convertJSXElement_convertJSXFragment_convertChildren.induct)
  case (1 uuidv4 name attributes kids n)
  then show ?case by (auto simp: fresh_ids_node split: prod.splits)
next
  case (2 uuidv4 kids n)
  then show ?case by (auto simp: fresh_ids_node split: prod.splits)
next
  case (3 uuidv4 n)
  show ?case by (simp add: fresh_ids_nil)
next
  case (4 uuidv4 name attributes kids rest n)
  obtain el n1 where e: "convertJSXElement uuidv4 name attributes kids n = (el, n1)" by (cases "convertJSXElement uuidv4 name attributes kids n")
  obtain others n2 where r: "convertChildren uuidv4 rest n1 = (others, n2)" by (cases "convertChildren uuidv4 rest n1")
  from 4(1) e have a: "fresh_ids uuidv4 n n1 (ids el)" by simp
  from 4(2) [OF e [symmetric]] r have b: "fresh_ids uuidv4 n1 n2 (concat (map ids others))" by simp
  show ?case using fresh_ids_append [OF a b] e r by simp
next
  case (5 uuidv4 kids rest n)
  obtain el n1 where e: "convertJSXFragment uuidv4 kids n = (el, n1)" by (cases "convertJSXFragment uuidv4 kids n")
  obtain others n2 where r: "convertChildren uuidv4 rest n1 = (others, n2)" by (cases "convertChildren uuidv4 rest n1")
  from 5(1) e have a: "fresh_ids uuidv4 n n1 (ids el)" by simp
  from 5(2) [OF e [symmetric]] r have b: "fresh_ids uuidv4 n1 n2 (concat (map ids others))" by simp
  show ?case using fresh_ids_append [OF a b] e r by simp
next
  case (6 uuidv4 val rest n)
  show ?case
  proof (cases "trim val = []")
    case True
    with 6 show ?thesis by simp
  next
    case False
    obtain others n2 where r: "convertChildren uuidv4 rest (Suc n) = (others, n2)" by (cases "convertChildren uuidv4 rest (Suc n)")
    from 6(1) [OF False] r have b: "fresh_ids uuidv4 (Suc n) n2 (concat (map ids others))" by simp
    show ?thesis using fresh_ids_append [OF fresh_ids_one b] False r by simp
  qed
next
  case (7 uuidv4 s rest n)
  obtain others n2 where r: "convertChildren uuidv4 rest (Suc n) = (others, n2)" by (cases "convertChildren uuidv4 rest (Suc n)")
  from 7 r have b: "fresh_ids uuidv4 (Suc n) n2 (concat (map ids others))" by simp
  show ?case using fresh_ids_append [OF fresh_ids_one b] r by simp
next
  case (8 uuidv4 quasis expressions rest n)
  show ?case
  proof (cases "trim (concat quasis) = []")
    case True
    with 8 show ?thesis by simp
  next
    case False
    obtain others n2 where r: "convertChildren uuidv4 rest (Suc n) = (others, n2)" by (cases "convertChildren uuidv4 rest (Suc n)")
    from 8(1) [OF False] r have b: "fresh_ids uuidv4 (Suc n) n2 (concat (map ids others))" by simp
    show ?thesis using fresh_ids_append [OF fresh_ids_one b] False r by simp
  qed
qed simp_all


lemma fresh_ids_distinct:
  assumes "inj u" and "fresh_ids u n n' xs"
  shows "distinct xs"
proof -
  from assms(2) obtain ks where ks: "xs = map u ks" "distinct ks" by (auto simp: fresh_ids_def)
  have "inj_on u (set ks)" using assms(1) by (rule inj_on_subset) simp
  with ks show ?thesis by (simp add: distinct_map)
qed

lemma parseJSX_tree_fresh:
  assumes "parseJSX parser_parse u n src = Inr (Some t, n', logged)"
  shows "fresh_ids u n n' (ids t)"
proof -
  from assms have tr: "parseJSX_try parser_parse u n src = Inr (Some t, n')"
    by (auto simp: parseJSX_def split: sum.splits prod.splits)
  then obtain tree where p: "parser_parse (trim src) = Inr tree"
    by (auto simp: parseJSX_try_def Let_def split: if_splits sum.splits)
  show ?thesis
  proof (cases "first_root False tree")
    case None
    with tr p show ?thesis by (auto simp: parseJSX_try_def Let_def split: if_splits)
  next
    case (Some r)
    show ?thesis
    proof (cases r)
      case (JSXElement name attrs kids)
      with tr p Some have "convertJSXElement u name attrs kids n = (t, n')"
        by (auto simp: parseJSX_try_def Let_def split: if_splits prod.splits)
      with convert_fresh(1) [of u n name attrs kids] show ?thesis by simp
    next
      case (JSXFragment kids)
      with tr p Some have "convertJSXFragment u kids n = (t, n')"
        by (auto simp: parseJSX_try_def Let_def split: if_splits prod.splits)
      with convert_fresh(2) [of u n kids] show ?thesis by simp
    qed (use tr p Some in \<open>auto simp: parseJSX_try_def Let_def split: if_splits\<close>)
  qed
qed

text \<open>
  C2. When \<^verbatim>\<open>uuidv4\<close> never returns the same id twice, every tree that \<open>parseJSX\<close>
  returns has no id twice: each node draws its id from one call of its own, when it is
  built, and nothing assigns an id again.
\<close>

theorem parsed_tree_ids_unique:
  assumes "inj uuidv4" and "parseJSX parser_parse uuidv4 n src = Inr (Some t, n', logged)"
  shows "distinct (ids t)"
  using fresh_ids_distinct [OF assms(1) parseJSX_tree_fresh [OF assms(2)]] .

lemma inj_unary_uuid: "inj unary_uuid"
proof (rule injI)
  fix x y assume "unary_uuid x = unary_uuid y"
  then have "length (unary_uuid x) = length (unary_uuid y)" by simp
  then show "x = y" by (simp add: unary_uuid_def)
qed

lemma stub_parse_hi:
  "parseJSX stub_front_end unary_uuid 0 ''<p>Hi</p>''
     = Inr (Some (EditorNode ''uu'' Element (Some ''p'') (plain [])
                    [EditorNode ''u'' TextNode None (plain []) [] (Some ''Hi'')] None), 2, [])"
  by (simp add: parseJSX_def parseJSX_try_def stub_front_end_def trim_def is_space_def
      starts_with_def unary_uuid_def extractProps_def numeral_2_eq_2)

theorem parsed_tree_ids_unique_witness:
  "inj unary_uuid \<and>
   parseJSX stub_front_end unary_uuid 0 ''<p>Hi</p>''
     = Inr (Some (EditorNode ''uu'' Element (Some ''p'') (plain [])
                    [EditorNode ''u'' TextNode None (plain []) [] (Some ''Hi'')] None), 2, []) \<and>
   distinct (ids (EditorNode ''uu'' Element (Some ''p'') (plain [])
                    [EditorNode ''u'' TextNode None (plain []) [] (Some ''Hi'')] None))"
  using parsed_tree_ids_unique [OF inj_unary_uuid stub_parse_hi] inj_unary_uuid stub_parse_hi
  by simp

section \<open>Failures of the parser\<close>

lemma parseJSX_returns: "\<exists>r. parseJSX parser_parse uuidv4 n src = Inr r"
  by (simp add: parseJSX_def split: sum.splits prod.splits)

lemma invalid_message_not_parse_error: "invalid_jsx_message \<noteq> ''Parse error: '' @ m"
  by (simp add: invalid_jsx_message_def)

text \<open>
  C10. \<open>parseJSX\<close> never throws: whatever the front end does, it returns a tree or
  \<^verbatim>\<open>null\<close>. So after the editor's parse effect the error message is the one it had
  (the effect was skipped), none, or the invalid-JSX message, and never a
  \<^verbatim>\<open>Parse error: ...\<close> message: the effect's \<^verbatim>\<open>catch\<close> branch does not run.
\<close>

theorem parseJSX_never_throws:
  "(\<exists>r. parseJSX parser_parse uuidv4 n src = Inr r) \<and>
   parseError (on_code_change parser_parse uuidv4 st) \<in> {parseError st, None, Some invalid_jsx_message} \<and>
   (\<forall>m. Some invalid_jsx_message \<noteq> Some (''Parse error: '' @ m))"
proof -
  obtain r where r: "parseJSX parser_parse uuidv4 (uuid_calls st) (code st) = Inr r"
    using parseJSX_returns by blast
  obtain parsed n' logged where "r = (parsed, n', logged)" by (cases r)
  with r have "parseError (on_code_change parser_parse uuidv4 st) \<in> {parseError st, None, Some invalid_jsx_message}"
    by (cases parsed) (simp_all add: on_code_change_def Let_def)
  then show ?thesis using parseJSX_returns invalid_message_not_parse_error by simp
qed

text \<open>
  C6 on the code: a text the front end rejects (\<^verbatim>\<open><div\<close>) and a text that is not markup
  (\<^verbatim>\<open>hello\<close>) both give \<^verbatim>\<open>null\<close>, the first with a line on the console, and the editor
  shows the same message for both.
\<close>

theorem grammar_failure_looks_like_not_markup:
  "stub_front_end ''<div'' = Inl (SyntaxError ''Unterminated JSX contents.'') \<and>
   parseJSX stub_front_end unary_uuid 0 ''<div'' = Inr (None, 0, [SyntaxError ''Unterminated JSX contents.'']) \<and>
   parseJSX stub_front_end unary_uuid 0 ''hello'' = Inr (None, 0, []) \<and>
   parseError (on_code_change stub_front_end unary_uuid (fresh_editor ''<div'')) = Some invalid_jsx_message \<and>
   parseError (on_code_change stub_front_end unary_uuid (fresh_editor ''hello'')) = Some invalid_jsx_message"
  by (simp add: on_code_change_def parseJSX_def parseJSX_try_def stub_front_end_def trim_def is_space_def
      starts_with_def fresh_editor_def)



section \<open>Round trip\<close>





lemma same_structure_trans: "same_structure a b \<Longrightarrow> same_structure c b \<Longrightarrow> same_structure a c"
  by (simp add: same_structure_def)



subsection \<open>Attributes read back from their markup\<close>












subsection \<open>Children read back from their markup\<close>














subsection \<open>The printed markup is the text of its syntax tree\<close>















subsection \<open>Parsing the printed markup\<close>













end
